theory Spec2Isabelle
  imports Main "HOL-Library.Word"
begin

section \<open>Mt3620UartSigfox: the UART/button/LED event loop of \<open>main.c\<close>\<close>

text \<open>
  The program is a single-threaded event loop over three peripherals. It is embedded
  here function by function. The C globals become one record that every function takes
  and returns; every call into the platform (\<open>write\<close>, \<open>read\<close>, the GPIO and epoll
  helpers) is an \<open>event\<close> of the trace the function returns, and the value the platform
  gives back is an input of the model. \<open>Log_Debug\<close> calls have no effect on the state
  or on the peripherals and are left out.
\<close>

subsection \<open>Data\<close>

text \<open>
  \<open>GPIO_Value_Type\<close>: the two levels \<open>GPIO_Value_Low\<close> and \<open>GPIO_Value_High\<close> that
  \<open>GPIO_GetValue\<close> yields and \<open>GPIO_SetValue\<close> takes.
\<close>

datatype GPIO_Value_Type = GPIO_Value_Low | GPIO_Value_High

text \<open>The board's peripheral identifiers of \<open>mt3620_rdb.h\<close>, kept symbolic.\<close>

datatype peripheral = MT3620_RDB_HEADER2_ISU0_UART | MT3620_RDB_BUTTON_A | MT3620_RDB_LED2_RED

datatype UART_FlowControl_Type =
  UART_FlowControl_None | UART_FlowControl_RTSCTS | UART_FlowControl_XONXOFF

datatype GPIO_OutputMode_Type =
  GPIO_OutputMode_PushPull | GPIO_OutputMode_OpenDrain | GPIO_OutputMode_OpenSource

record UART_Config =
  baudRate :: nat
  blockingMode :: nat
  dataBits :: nat
  parity :: nat
  stopBits :: nat
  flowControl :: UART_FlowControl_Type

text \<open>The two \<open>EventData\<close> objects, named by the handler they hold.\<close>

datatype EventData = buttonPollTimerEventData | uartEventData

text \<open>\<open>size_t\<close> on the MT3620 (a 32-bit ARM core) is an unsigned 32-bit integer.\<close>

type_synonym size_t = "32 word"

text \<open>
  The calls the program makes into the platform, in the order it makes them. An
  acquisition carries the descriptor it returned, \<open>write\<close> and \<open>read\<close> carry their
  return value; \<open>Call_write fd buf n r\<close> is \<open>write(fd, buf, n)\<close> returning \<open>r\<close>, where
  \<open>buf\<close> is the string the pointer argument points to.
\<close>

datatype event =
    Call_sigaction_SIGTERM
  | Call_CreateEpollFd int
  | Call_UART_Open peripheral UART_Config int
  | Call_RegisterEventHandlerToEpoll int int EventData int
  | Call_GPIO_OpenAsInput peripheral int
  | Call_CreateTimerFdAndAddToEpoll int "nat \<times> nat" EventData int
  | Call_GPIO_OpenAsOutput peripheral GPIO_OutputMode_Type GPIO_Value_Type int
  | Call_ConsumeTimerFdEvent int
  | Call_GPIO_GetValue int
  | Call_GPIO_SetValue int GPIO_Value_Type
  | Call_write int string size_t int
  | Call_read int size_t int
  | Call_WaitForEventAndCallHandler int
  | Call_CloseFdAndPrintError int string

text \<open>The file-scope variables of \<open>main.c\<close>.\<close>

record globals =
  uartFd :: int
  triggerSendButtonGpioFd :: int
  buttonPollTimerFd :: int
  incomingDataLedGpioFd :: int
  epollFd :: int
  buttonState :: GPIO_Value_Type
  totalBytesReceived :: size_t
  terminationRequired :: bool

text \<open>Their initialisers: every descriptor invalid, the button released, nothing received.\<close>

definition initial_globals :: globals where
  "initial_globals =
     \<lparr> uartFd = -1, triggerSendButtonGpioFd = -1, buttonPollTimerFd = -1,
       incomingDataLedGpioFd = -1, epollFd = -1, buttonState = GPIO_Value_High,
       totalBytesReceived = 0, terminationRequired = False \<rparr>"

definition TerminationHandler :: "globals \<Rightarrow> globals" where
  "TerminationHandler g = g\<lparr>terminationRequired := True\<rparr>"

subsection \<open>SendUartMessage\<close>

text \<open>
  The platform's \<open>write\<close> is an input: \<open>wr k n\<close> is what the call number \<open>k\<close> (counted
  from 0 within one send) returns when asked to write \<open>n\<close> bytes. POSIX promises a
  negative value on error and otherwise at most \<open>n\<close>; \<open>write_ok\<close> states that promise.
\<close>

type_synonym write_results = "nat \<Rightarrow> nat \<Rightarrow> int"

definition write_ok :: "write_results \<Rightarrow> bool" where
  "write_ok wr \<longleftrightarrow> (\<forall>k n. wr k n \<le> int n)"

text \<open>
  A write that succeeds transfers at least one byte whenever it is asked for at least one.
\<close>

definition write_progress :: "write_results \<Rightarrow> bool" where
  "write_progress wr \<longleftrightarrow> (\<forall>k n. 0 < n \<longrightarrow> wr k n \<noteq> 0)"

text \<open>
  A C string is the list of its characters before the terminator, so \<open>strlen\<close> is its
  length as a \<open>size_t\<close>.
\<close>

definition strlen :: "string \<Rightarrow> size_t" where
  "strlen s = of_nat (length s)"

text \<open>
  The \<open>while\<close> loop of \<open>SendUartMessage\<close>. It may run forever (a \<open>write\<close> that keeps
  returning 0), so it is a partial function: \<open>None\<close> is a loop that never exits. The
  result is \<open>True\<close> when the loop ran to its end and \<open>False\<close> when it left through the
  \<open>return\<close> of the error branch, with the calls made. \<open>sendIterations\<close> counts the calls
  made so far; the code only logs it, and here it numbers the calls for \<open>wr\<close>.
\<close>

partial_function (option) SendUartMessage_loop ::
  "write_results \<Rightarrow> int \<Rightarrow> string \<Rightarrow> size_t \<Rightarrow> size_t \<Rightarrow> nat \<Rightarrow> (bool \<times> event list) option"
where
  "SendUartMessage_loop wr fd dataToSend totalBytesToSend totalBytesSent sendIterations =
     (if totalBytesSent < totalBytesToSend then
        (if wr sendIterations (unat (totalBytesToSend - totalBytesSent)) < 0 then
           Some (False,
             [Call_write fd (drop (unat totalBytesSent) dataToSend)
                (totalBytesToSend - totalBytesSent)
                (wr sendIterations (unat (totalBytesToSend - totalBytesSent)))])
         else
           Option.bind
             (SendUartMessage_loop wr fd dataToSend totalBytesToSend
                (totalBytesSent
                   + word_of_int (wr sendIterations (unat (totalBytesToSend - totalBytesSent))))
                (sendIterations + 1))
             (\<lambda>(finished, evs). Some (finished,
                Call_write fd (drop (unat totalBytesSent) dataToSend)
                  (totalBytesToSend - totalBytesSent)
                  (wr sendIterations (unat (totalBytesToSend - totalBytesSent))) # evs)))
      else Some (True, []))"

declare SendUartMessage_loop.simps [code]

definition SendUartMessage ::
  "write_results \<Rightarrow> int \<Rightarrow> string \<Rightarrow> globals \<Rightarrow> (globals \<times> event list) option"
where
  "SendUartMessage wr fd dataToSend g =
     Option.bind (SendUartMessage_loop wr fd dataToSend (strlen dataToSend) 0 0)
       (\<lambda>(finished, evs).
          Some (if finished then g else g\<lparr>terminationRequired := True\<rparr>, evs))"

text \<open>The bytes a trace put on the wire: what each successful \<open>write\<close> accepted.\<close>

fun bytes_of_event :: "event \<Rightarrow> string" where
  "bytes_of_event (Call_write fd buf n r) = (if 0 \<le> r then take (nat r) buf else [])"
| "bytes_of_event _ = []"

definition bytes_written :: "event list \<Rightarrow> string" where
  "bytes_written evs = concat (map bytes_of_event evs)"

fun is_write :: "event \<Rightarrow> bool" where
  "is_write (Call_write fd buf n r) = True"
| "is_write _ = False"

subsection \<open>ButtonPollTimerEventHandler\<close>

text \<open>What one invocation of the handler gets from the platform.\<close>

record button_inputs =
  consume_result :: int
  getvalue_result :: int
  newButtonState :: GPIO_Value_Type
  write_results :: write_results

definition messageToSend :: string where
  "messageToSend =
     ''AT$RC'' @ [CHR 0x0A, CHR 0x0D] @ ''AT$SF=692665535048455245'' @ [CHR 0x0A, CHR 0x0D]"

definition ButtonPollTimerEventHandler ::
  "button_inputs \<Rightarrow> globals \<Rightarrow> (globals \<times> event list) option"
where
  "ButtonPollTimerEventHandler inp g =
     (if consume_result inp \<noteq> 0 then
        Some (g\<lparr>terminationRequired := True\<rparr>, [Call_ConsumeTimerFdEvent (buttonPollTimerFd g)])
      else if getvalue_result inp \<noteq> 0 then
        Some (g\<lparr>terminationRequired := True\<rparr>,
          [Call_ConsumeTimerFdEvent (buttonPollTimerFd g),
           Call_GPIO_GetValue (triggerSendButtonGpioFd g)])
      else if newButtonState inp \<noteq> buttonState g then
        (if newButtonState inp = GPIO_Value_Low then
           Option.bind (SendUartMessage (write_results inp) (uartFd g) messageToSend g)
             (\<lambda>(g', evs).
                Some (g'\<lparr>buttonState := newButtonState inp\<rparr>,
                  [Call_ConsumeTimerFdEvent (buttonPollTimerFd g),
                   Call_GPIO_GetValue (triggerSendButtonGpioFd g)] @ evs))
         else
           Some (g\<lparr>buttonState := newButtonState inp\<rparr>,
             [Call_ConsumeTimerFdEvent (buttonPollTimerFd g),
              Call_GPIO_GetValue (triggerSendButtonGpioFd g)]))
      else
        Some (g,
          [Call_ConsumeTimerFdEvent (buttonPollTimerFd g),
           Call_GPIO_GetValue (triggerSendButtonGpioFd g)]))"

text \<open>The handler on a list of timer firings, keeping the trace of each invocation apart.\<close>

fun ButtonPollTimerEventHandler_run ::
  "button_inputs list \<Rightarrow> globals \<Rightarrow> (globals \<times> event list list) option"
where
  "ButtonPollTimerEventHandler_run [] g = Some (g, [])"
| "ButtonPollTimerEventHandler_run (inp # inps) g =
     (case ButtonPollTimerEventHandler inp g of
        None \<Rightarrow> None
      | Some (g', evs) \<Rightarrow>
          (case ButtonPollTimerEventHandler_run inps g' of
             None \<Rightarrow> None
           | Some (g'', traces) \<Rightarrow> Some (g'', evs # traces)))"

text \<open>
  A firing delivers a sample when the timer event was consumed and the GPIO was read.
\<close>

definition sampled :: "button_inputs \<Rightarrow> bool" where
  "sampled inp \<longleftrightarrow> consume_result inp = 0 \<and> getvalue_result inp = 0"

definition send_triggered :: "event list \<Rightarrow> bool" where
  "send_triggered evs \<longleftrightarrow> list_ex is_write evs"

fun write_failed :: "event \<Rightarrow> bool" where
  "write_failed (Call_write fd buf n r) = (r < 0)"
| "write_failed _ = False"

subsection \<open>UartEventHandler\<close>

text \<open>
  What one invocation gets from the platform: the return value of \<open>read\<close> and that of
  \<open>GPIO_SetValue\<close>. \<open>read\<close> is asked for \<open>receiveBufferSize\<close> bytes and returns no more.
\<close>

record uart_inputs =
  read_result :: int
  setvalue_result :: int

definition receiveBufferSize :: size_t where
  "receiveBufferSize = 256"

definition UartEventHandler :: "uart_inputs \<Rightarrow> globals \<Rightarrow> globals \<times> event list" where
  "UartEventHandler inp g =
     (if read_result inp < 0 then
        (g\<lparr>terminationRequired := True\<rparr>,
         [Call_read (uartFd g) receiveBufferSize (read_result inp)])
      else if read_result inp > 0 then
        (let g' = g\<lparr>totalBytesReceived := totalBytesReceived g + word_of_int (read_result inp)\<rparr>;
             evs = [Call_read (uartFd g) receiveBufferSize (read_result inp),
                    Call_GPIO_SetValue (incomingDataLedGpioFd g)
                      (if totalBytesReceived g' mod 2 = 1 then GPIO_Value_Low
                       else GPIO_Value_High)]
         in if setvalue_result inp \<noteq> 0 then (g'\<lparr>terminationRequired := True\<rparr>, evs)
            else (g', evs))
      else (g, [Call_read (uartFd g) receiveBufferSize (read_result inp)]))"

fun UartEventHandler_run :: "uart_inputs list \<Rightarrow> globals \<Rightarrow> globals \<times> event list list" where
  "UartEventHandler_run [] g = (g, [])"
| "UartEventHandler_run (inp # inps) g =
     (case UartEventHandler inp g of
        (g', evs) \<Rightarrow>
          (case UartEventHandler_run inps g' of (g'', traces) \<Rightarrow> (g'', evs # traces)))"

text \<open>A receive that succeeds with data: a positive count within the buffer.\<close>

definition received :: "uart_inputs \<Rightarrow> bool" where
  "received inp \<longleftrightarrow> 0 < read_result inp \<and> read_result inp \<le> 256"

definition bytes_read :: "uart_inputs list \<Rightarrow> nat" where
  "bytes_read inps = sum_list (map (\<lambda>inp. nat (read_result inp)) inps)"

fun is_read :: "event \<Rightarrow> bool" where
  "is_read (Call_read fd n r) = True"
| "is_read _ = False"

fun is_set_value :: "event \<Rightarrow> bool" where
  "is_set_value (Call_GPIO_SetValue fd v) = True"
| "is_set_value _ = False"

subsection \<open>InitPeripheralsAndHandlers\<close>

record init_inputs =
  CreateEpollFd_result :: int
  UART_InitConfig_result :: UART_Config
  UART_Open_result :: int
  RegisterEventHandlerToEpoll_result :: int
  GPIO_OpenAsInput_result :: int
  CreateTimerFdAndAddToEpoll_result :: int
  GPIO_OpenAsOutput_result :: int

text \<open>
  The function returns at the first failure; the result is its return value, the globals
  and the calls made. The event mask \<open>EPOLLIN\<close>, the same in both registrations, is not
  recorded. \<open>buttonPressCheckPeriod\<close> is the \<open>timespec\<close> \<open>{0, 1000000}\<close>: seconds and
  nanoseconds.
\<close>

definition buttonPressCheckPeriod :: "nat \<times> nat" where
  "buttonPressCheckPeriod = (0, 1000000)"

definition InitPeripheralsAndHandlers ::
  "init_inputs \<Rightarrow> globals \<Rightarrow> int \<times> globals \<times> event list"
where
  "InitPeripheralsAndHandlers inp g =
     (let g1 = g\<lparr>epollFd := CreateEpollFd_result inp\<rparr>;
          evs1 = [Call_sigaction_SIGTERM, Call_CreateEpollFd (epollFd g1)]
      in if epollFd g1 < 0 then (-1, g1, evs1)
      else
        let uartConfig = (UART_InitConfig_result inp)
                           \<lparr>baudRate := 9600, flowControl := UART_FlowControl_None\<rparr>;
            g2 = g1\<lparr>uartFd := UART_Open_result inp\<rparr>;
            evs2 = evs1 @ [Call_UART_Open MT3620_RDB_HEADER2_ISU0_UART uartConfig (uartFd g2)]
        in if uartFd g2 < 0 then (-1, g2, evs2)
        else
          let evs3 = evs2 @ [Call_RegisterEventHandlerToEpoll (epollFd g2) (uartFd g2)
                               uartEventData (RegisterEventHandlerToEpoll_result inp)]
          in if RegisterEventHandlerToEpoll_result inp \<noteq> 0 then (-1, g2, evs3)
          else
            let g4 = g2\<lparr>triggerSendButtonGpioFd := GPIO_OpenAsInput_result inp\<rparr>;
                evs4 = evs3 @ [Call_GPIO_OpenAsInput MT3620_RDB_BUTTON_A
                                 (triggerSendButtonGpioFd g4)]
            in if triggerSendButtonGpioFd g4 < 0 then (-1, g4, evs4)
            else
              let g5 = g4\<lparr>buttonPollTimerFd := CreateTimerFdAndAddToEpoll_result inp\<rparr>;
                  evs5 = evs4 @ [Call_CreateTimerFdAndAddToEpoll (epollFd g5)
                                   buttonPressCheckPeriod buttonPollTimerEventData
                                   (buttonPollTimerFd g5)]
              in if buttonPollTimerFd g5 < 0 then (-1, g5, evs5)
              else
                let g6 = g5\<lparr>incomingDataLedGpioFd := GPIO_OpenAsOutput_result inp\<rparr>;
                    evs6 = evs5 @ [Call_GPIO_OpenAsOutput MT3620_RDB_LED2_RED
                                     GPIO_OutputMode_PushPull GPIO_Value_High
                                     (incomingDataLedGpioFd g6)]
                in if incomingDataLedGpioFd g6 < 0 then (-1, g6, evs6)
                else (0, g6, evs6))"

text \<open>
  An acquisition step fails: one of the calls above returns what the code tests for, a
  negative descriptor or a nonzero registration result.
\<close>

definition acquisition_failed :: "init_inputs \<Rightarrow> bool" where
  "acquisition_failed inp \<longleftrightarrow>
     CreateEpollFd_result inp < 0 \<or> UART_Open_result inp < 0 \<or>
     RegisterEventHandlerToEpoll_result inp \<noteq> 0 \<or> GPIO_OpenAsInput_result inp < 0 \<or>
     CreateTimerFdAndAddToEpoll_result inp < 0 \<or> GPIO_OpenAsOutput_result inp < 0"

subsection \<open>ClosePeripheralsAndHandlers\<close>

text \<open>
  The return value of \<open>GPIO_SetValue\<close> is an argument here, and the function discards it
  as the code does. \<open>CloseFdAndPrintError\<close> is called on all five descriptors, valid or
  not.
\<close>

definition ClosePeripheralsAndHandlers :: "int \<Rightarrow> globals \<Rightarrow> globals \<times> event list" where
  "ClosePeripheralsAndHandlers setvalue_res g =
     (g,
      (if incomingDataLedGpioFd g \<ge> 0
       then [Call_GPIO_SetValue (incomingDataLedGpioFd g) GPIO_Value_High] else [])
      @ [Call_CloseFdAndPrintError (incomingDataLedGpioFd g) ''IncomingDataLedGpio'',
         Call_CloseFdAndPrintError (buttonPollTimerFd g) ''ButtonPollTimer'',
         Call_CloseFdAndPrintError (triggerSendButtonGpioFd g) ''TriggerSendButtonGpio'',
         Call_CloseFdAndPrintError (uartFd g) ''Uart'',
         Call_CloseFdAndPrintError (epollFd g) ''Epoll''])"

subsection \<open>main\<close>

text \<open>
  Modelled from the spec: \<open>WaitForEventAndCallHandler\<close> of \<open>epoll_timerfd_utilities\<close>,
  which is not among the sources. By the specification it blocks until a registered source
  is ready and then invokes the callback of each ready source once; a wait that fails
  returns an error, a wait that a signal interrupts does not. What one call meets is an
  input: the wait fails, \<open>SIGTERM\<close> interrupts it (its handler runs), or some sources
  are ready, each with what its handler gets from the platform.
\<close>

datatype ready_source = Timer_ready button_inputs | Uart_ready uart_inputs

datatype wakeup = Wait_failed | Wait_interrupted_by_SIGTERM | Sources_ready "ready_source list"

fun call_handlers :: "ready_source list \<Rightarrow> globals \<Rightarrow> (globals \<times> event list) option" where
  "call_handlers [] g = Some (g, [])"
| "call_handlers (Timer_ready inp # rs) g =
     (case ButtonPollTimerEventHandler inp g of
        None \<Rightarrow> None
      | Some (g', evs) \<Rightarrow>
          (case call_handlers rs g' of
             None \<Rightarrow> None
           | Some (g'', evs') \<Rightarrow> Some (g'', evs @ evs')))"
| "call_handlers (Uart_ready inp # rs) g =
     (case UartEventHandler inp g of
        (g', evs) \<Rightarrow>
          (case call_handlers rs g' of
             None \<Rightarrow> None
           | Some (g'', evs') \<Rightarrow> Some (g'', evs @ evs')))"

fun WaitForEventAndCallHandler :: "wakeup \<Rightarrow> globals \<Rightarrow> (int \<times> globals \<times> event list) option"
where
  "WaitForEventAndCallHandler Wait_failed g =
     Some (-1, g, [Call_WaitForEventAndCallHandler (epollFd g)])"
| "WaitForEventAndCallHandler Wait_interrupted_by_SIGTERM g =
     Some (0, TerminationHandler g, [Call_WaitForEventAndCallHandler (epollFd g)])"
| "WaitForEventAndCallHandler (Sources_ready rs) g =
     (case call_handlers rs g of
        None \<Rightarrow> None
      | Some (g', evs) \<Rightarrow> Some (0, g', Call_WaitForEventAndCallHandler (epollFd g) # evs))"

text \<open>
  The \<open>while (!terminationRequired)\<close> loop of \<open>main\<close>, over the wake-ups the platform
  delivers. \<open>None\<close> is a loop that never exits: a handler that does not return, or no
  further wake-up while termination is not required.
\<close>

fun dispatch_loop :: "wakeup list \<Rightarrow> globals \<Rightarrow> (globals \<times> event list) option" where
  "dispatch_loop [] g = (if terminationRequired g then Some (g, []) else None)"
| "dispatch_loop (w # ws) g =
     (if terminationRequired g then Some (g, [])
      else
        (case WaitForEventAndCallHandler w g of
           None \<Rightarrow> None
         | Some (rc, g', evs) \<Rightarrow>
             (case dispatch_loop ws (if rc \<noteq> 0 then g'\<lparr>terminationRequired := True\<rparr> else g') of
                None \<Rightarrow> None
              | Some (g'', evs') \<Rightarrow> Some (g'', evs @ evs'))))"

text \<open>\<open>main\<close> starts from the initialisers of the globals and returns its exit code.\<close>

definition main ::
  "init_inputs \<Rightarrow> wakeup list \<Rightarrow> int \<Rightarrow> (int \<times> globals \<times> event list) option"
where
  "main init_inp wakeups close_setvalue_res =
     (case InitPeripheralsAndHandlers init_inp initial_globals of
        (rc, g1, evs1) \<Rightarrow>
          (case dispatch_loop wakeups
                  (if rc \<noteq> 0 then g1\<lparr>terminationRequired := True\<rparr> else g1) of
             None \<Rightarrow> None
           | Some (g2, evs2) \<Rightarrow>
               (case ClosePeripheralsAndHandlers close_setvalue_res g2 of
                  (g3, evs3) \<Rightarrow> Some (0, g3, evs1 @ evs2 @ evs3))))"

text \<open>The descriptor an acquisition call returned, and the one a release call is given.\<close>

fun acquired_fd :: "event \<Rightarrow> int list" where
  "acquired_fd (Call_CreateEpollFd fd) = (if 0 \<le> fd then [fd] else [])"
| "acquired_fd (Call_UART_Open p c fd) = (if 0 \<le> fd then [fd] else [])"
| "acquired_fd (Call_GPIO_OpenAsInput p fd) = (if 0 \<le> fd then [fd] else [])"
| "acquired_fd (Call_CreateTimerFdAndAddToEpoll e t d fd) = (if 0 \<le> fd then [fd] else [])"
| "acquired_fd (Call_GPIO_OpenAsOutput p m v fd) = (if 0 \<le> fd then [fd] else [])"
| "acquired_fd _ = []"

fun released_fd :: "event \<Rightarrow> int list" where
  "released_fd (Call_CloseFdAndPrintError fd name) = [fd]"
| "released_fd _ = []"

definition acquired :: "event list \<Rightarrow> int list" where
  "acquired evs = concat (map acquired_fd evs)"

definition released :: "event list \<Rightarrow> int list" where
  "released evs = concat (map released_fd evs)"

fun is_wait :: "event \<Rightarrow> bool" where
  "is_wait (Call_WaitForEventAndCallHandler fd) = True"
| "is_wait _ = False"

text \<open>The configuration the specification gives for the three calls that take one.\<close>

fun configured_as_specified :: "event \<Rightarrow> bool" where
  "configured_as_specified (Call_UART_Open p c fd) =
     (baudRate c = 9600 \<and> flowControl c = UART_FlowControl_None)"
| "configured_as_specified (Call_CreateTimerFdAndAddToEpoll e t d fd) = (t = (0, 1000000))"
| "configured_as_specified (Call_GPIO_OpenAsOutput p m v fd) = (v = GPIO_Value_High)"
| "configured_as_specified _ = True"

subsection \<open>Postcondition of the send loop\<close>

text \<open>
  What a returned send loop has done with the rest of the message, \<open>rest\<close>: every call
  it made is a \<open>write\<close>; if it ran to its end no call failed and the bytes written are
  \<open>rest\<close>, otherwise a call failed and the bytes written are a proper prefix of \<open>rest\<close>.
\<close>

definition send_post :: "string \<Rightarrow> bool \<times> event list \<Rightarrow> bool" where
  "send_post rest res =
     (case res of (finished, evs) \<Rightarrow>
        list_all is_write evs \<and>
        (if finished
         then list_all (\<lambda>e. \<not> write_failed e) evs \<and> bytes_written evs = rest
         else (\<exists>e \<in> set evs. write_failed e) \<and>
              (\<exists>n < length rest. bytes_written evs = take n rest)))"

subsection \<open>Concrete inputs\<close>

text \<open>The globals of a running program, and some behaviours of the platform.\<close>

definition running_globals :: globals where
  "running_globals =
     \<lparr> uartFd = 4, triggerSendButtonGpioFd = 5, buttonPollTimerFd = 6,
       incomingDataLedGpioFd = 7, epollFd = 3, buttonState = GPIO_Value_High,
       totalBytesReceived = 0, terminationRequired = False \<rparr>"

definition write_all :: write_results where
  "write_all k n = int n"

definition write_ten_then_fail :: write_results where
  "write_ten_then_fail k n = (if k = 0 then int (min n 10) else -1)"

definition write_ten_at_a_time :: write_results where
  "write_ten_at_a_time k n = int (min n 10)"

definition write_nothing :: write_results where
  "write_nothing k n = 0"

definition sample :: "GPIO_Value_Type \<Rightarrow> write_results \<Rightarrow> button_inputs" where
  "sample v wr = \<lparr> consume_result = 0, getvalue_result = 0, newButtonState = v,
                   write_results = wr \<rparr>"

definition press_release_press :: "button_inputs list" where
  "press_release_press =
     [sample GPIO_Value_High write_all, sample GPIO_Value_Low write_all,
      sample GPIO_Value_Low write_all, sample GPIO_Value_High write_all,
      sample GPIO_Value_Low write_all]"

text \<open>A receive of \<open>n\<close> bytes after which the LED is set without error.\<close>

definition receive :: "int \<Rightarrow> uart_inputs" where
  "receive n = \<lparr> read_result = n, setvalue_result = 0 \<rparr>"

text \<open>
  What the platform returns during initialisation: every acquisition succeeding, and the
  LED failing to open after the others succeeded, with the globals \<open>main\<close> then has when
  it shuts down. The configuration \<open>UART_InitConfig\<close> fills in is an example.
\<close>

definition example_UART_InitConfig :: UART_Config where
  "example_UART_InitConfig =
     \<lparr> baudRate = 115200, blockingMode = 0, dataBits = 8, parity = 0, stopBits = 1,
       flowControl = UART_FlowControl_RTSCTS \<rparr>"

definition init_succeeds :: init_inputs where
  "init_succeeds =
     \<lparr> CreateEpollFd_result = 3, UART_InitConfig_result = example_UART_InitConfig,
       UART_Open_result = 4, RegisterEventHandlerToEpoll_result = 0,
       GPIO_OpenAsInput_result = 5, CreateTimerFdAndAddToEpoll_result = 6,
       GPIO_OpenAsOutput_result = 7 \<rparr>"

definition init_led_fails :: init_inputs where
  "init_led_fails = init_succeeds\<lparr>GPIO_OpenAsOutput_result := -1\<rparr>"

definition globals_led_failed :: globals where
  "globals_led_failed =
     \<lparr> uartFd = 4, triggerSendButtonGpioFd = 5, buttonPollTimerFd = 6,
       incomingDataLedGpioFd = -1, epollFd = 3, buttonState = GPIO_Value_High,
       totalBytesReceived = 0, terminationRequired = True \<rparr>"

text \<open>The registration of the UART failing, and the globals at the shutdown that follows.\<close>

definition init_registration_fails :: init_inputs where
  "init_registration_fails = init_succeeds\<lparr>RegisterEventHandlerToEpoll_result := -1\<rparr>"

definition globals_registration_failed :: globals where
  "globals_registration_failed =
     \<lparr> uartFd = 4, triggerSendButtonGpioFd = -1, buttonPollTimerFd = -1,
       incomingDataLedGpioFd = -1, epollFd = 3, buttonState = GPIO_Value_High,
       totalBytesReceived = 0, terminationRequired = True \<rparr>"

section \<open>Properties\<close>

subsection \<open>Arithmetic of \<open>size_t\<close>\<close>

lemma unat_word_of_int_nonneg:
  fixes r :: int
  assumes "0 \<le> r" "r < 4294967296"
  shows "unat (word_of_int r :: size_t) = nat r"
  using assms
  by (simp add: unat_eq_nat_uint  uint_word_of_int  take_bit_eq_mod)

lemma step_unat:
  fixes sent toSend :: size_t
  assumes "sent < toSend" "0 \<le> r" "r \<le> int (unat (toSend - sent))"
  shows "unat (toSend - sent) = unat toSend - unat sent"
    and "unat (sent + word_of_int r) = unat sent + nat r"
    and "sent + word_of_int r \<le> toSend"
proof -
  have le: "unat sent < unat toSend" using assms(1) by (simp add: word_less_nat_alt)
  show A: "unat (toSend - sent) = unat toSend - unat sent"
    using assms(1) by (simp add: unat_sub less_imp_le)
  have bnd: "unat toSend < 4294967296" using unsigned_less [of toSend] by simp
  have r1: "nat r \<le> unat toSend - unat sent" using assms A by linarith
  have r2: "r < 4294967296" using r1 bnd assms(2) by linarith
  have ur: "unat (word_of_int r :: size_t) = nat r"
    using assms(2) r2 by (rule unat_word_of_int_nonneg)
  have sum: "unat sent + nat r \<le> unat toSend" using r1 le by linarith
  show B: "unat (sent + word_of_int r) = unat sent + nat r"
    using sum bnd ur by (simp add: unat_word_ariths)
  show "sent + word_of_int r \<le> toSend"
    using B sum by (simp add: word_le_nat_alt)
qed

subsection \<open>The send loop\<close>

lemma SendUartMessage_loop_returns:
  assumes ok: "write_ok wr" and pr: "write_progress wr"
  shows "totalBytesSent \<le> totalBytesToSend \<Longrightarrow>
     \<exists>finished evs.
        SendUartMessage_loop wr fd dataToSend totalBytesToSend totalBytesSent sendIterations
          = Some (finished, evs) \<and>
        length evs \<le> unat totalBytesToSend - unat totalBytesSent"
proof (induction "unat totalBytesToSend - unat totalBytesSent"
        arbitrary: totalBytesSent sendIterations rule: less_induct)
  case less
  show ?case
  proof (cases "totalBytesSent < totalBytesToSend")
    case False
    then have "SendUartMessage_loop wr fd dataToSend totalBytesToSend totalBytesSent sendIterations
                 = Some (True, [])"
      by (subst SendUartMessage_loop.simps) simp
    then show ?thesis by auto
  next
    case True
    define r where "r = wr sendIterations (unat (totalBytesToSend - totalBytesSent))"
    define e where "e = Call_write fd (drop (unat totalBytesSent) dataToSend)
                          (totalBytesToSend - totalBytesSent) r"
    have room: "0 < unat totalBytesToSend - unat totalBytesSent"
      using True by (simp add: word_less_nat_alt)
    show ?thesis
    proof (cases "r < 0")
      case True
      with \<open>totalBytesSent < totalBytesToSend\<close>
      have "SendUartMessage_loop wr fd dataToSend totalBytesToSend totalBytesSent sendIterations
              = Some (False, [e])"
        by (subst SendUartMessage_loop.simps) (simp add: r_def e_def)
      then show ?thesis using room by auto
    next
      case False
      have rle: "r \<le> int (unat (totalBytesToSend - totalBytesSent))"
        using ok unfolding write_ok_def r_def by blast
      have r0: "0 \<le> r" using False by simp
      note st = step_unat [OF True r0 rle]
      have pos: "0 < unat (totalBytesToSend - totalBytesSent)"
        using room st(1) by simp
      have "r \<noteq> 0" using pr pos unfolding write_progress_def r_def by blast
      with r0 have rpos: "0 < nat r" by simp
      have dec: "unat totalBytesToSend - unat (totalBytesSent + word_of_int r)
                   < unat totalBytesToSend - unat totalBytesSent"
        using st(2) rpos room by simp
      from less.hyps [OF dec st(3), of "sendIterations + 1"] obtain finished evs where
        rec: "SendUartMessage_loop wr fd dataToSend totalBytesToSend
           (totalBytesSent + word_of_int r) (sendIterations + 1) = Some (finished, evs)"
        and len: "length evs \<le> unat totalBytesToSend - unat (totalBytesSent + word_of_int r)"
        by blast
      from True False rec
      have "SendUartMessage_loop wr fd dataToSend totalBytesToSend totalBytesSent sendIterations
              = Some (finished, e # evs)"
        by (subst SendUartMessage_loop.simps) (simp add: r_def [symmetric] e_def)
      moreover have "length (e # evs) \<le> unat totalBytesToSend - unat totalBytesSent"
        using len dec by simp
      ultimately show ?thesis by blast
    qed
  qed
qed

lemma bytes_written_Cons: "bytes_written (e # evs) = bytes_of_event e @ bytes_written evs"
  by (simp add: bytes_written_def)

lemma bytes_written_Nil: "bytes_written [] = []"
  by (simp add: bytes_written_def)

lemma SendUartMessage_loop_post:
  assumes "SendUartMessage_loop wr fd dataToSend totalBytesToSend totalBytesSent sendIterations
             = Some res"
  shows "write_ok wr \<longrightarrow> totalBytesSent \<le> totalBytesToSend \<longrightarrow>
         unat totalBytesToSend = length dataToSend \<longrightarrow>
         send_post (drop (unat totalBytesSent) dataToSend) res"
proof (rule SendUartMessage_loop.raw_induct
    [where P = "\<lambda>wr fd dataToSend totalBytesToSend totalBytesSent sendIterations res.
         write_ok wr \<longrightarrow> totalBytesSent \<le> totalBytesToSend \<longrightarrow>
         unat totalBytesToSend = length dataToSend \<longrightarrow>
         send_post (drop (unat totalBytesSent) dataToSend) res", OF _ assms], goal_cases)
  case (1 loop wr fd dataToSend totalBytesToSend totalBytesSent sendIterations res)
  note IH = 1(1) and body = 1(2)
  show ?case
  proof (intro impI)
    assume ok: "write_ok wr" and le: "totalBytesSent \<le> totalBytesToSend"
      and len: "unat totalBytesToSend = length dataToSend"
    define r where "r = wr sendIterations (unat (totalBytesToSend - totalBytesSent))"
    define e where "e = Call_write fd (drop (unat totalBytesSent) dataToSend)
                          (totalBytesToSend - totalBytesSent) r"
    show "send_post (drop (unat totalBytesSent) dataToSend) res"
    proof (cases "totalBytesSent < totalBytesToSend")
      case False
      with le have eq: "totalBytesSent = totalBytesToSend" by simp
      from False body have "res = (True, [])" by simp
      then show ?thesis
        by (simp add: send_post_def bytes_written_Nil eq len)
    next
      case True
      have left: "unat totalBytesSent < length dataToSend"
        using True len by (simp add: word_less_nat_alt)
      show ?thesis
      proof (cases "r < 0")
        case neg: True
        with True body have "res = (False, [e])"
          by (simp add: r_def e_def)
        moreover have "\<exists>n<length dataToSend - unat totalBytesSent. [] = take n (drop (unat totalBytesSent) dataToSend)"
          using left by (intro exI [of _ 0]) simp
        ultimately show ?thesis
          using neg left by (simp add: send_post_def e_def bytes_written_Cons bytes_written_Nil)
      next
        case False
        then have r0: "0 \<le> r" by simp
        have rle: "r \<le> int (unat (totalBytesToSend - totalBytesSent))"
          using ok unfolding write_ok_def r_def by blast
        note st = step_unat [OF True r0 rle]
        from True False body obtain res' where
          rec: "loop wr fd dataToSend totalBytesToSend (totalBytesSent + word_of_int r)
                  (sendIterations + 1) = Some res'"
          and res: "res = (fst res', e # snd res')"
          by (auto simp: r_def [symmetric] e_def [symmetric] Option.bind_eq_Some_conv)
        from IH [OF rec] ok st(3) len
        have post': "send_post (drop (unat totalBytesSent + nat r) dataToSend) res'"
          by (simp add: st(2))
        have be: "bytes_of_event e = take (nat r) (drop (unat totalBytesSent) dataToSend)"
          using r0 by (simp add: e_def)
        have nr: "nat r \<le> length dataToSend - unat totalBytesSent"
          using rle st(1) len r0 by linarith
        show ?thesis
        proof (cases "fst res'")
          case fin: True
          with post' have "list_all is_write (snd res')"
            and "list_all (\<lambda>e. \<not> write_failed e) (snd res')"
            and "bytes_written (snd res') = drop (unat totalBytesSent + nat r) dataToSend"
            by (simp_all add: send_post_def split: prod.splits)
          moreover have "take (nat r) (drop (unat totalBytesSent) dataToSend)
                          @ drop (unat totalBytesSent + nat r) dataToSend
                       = drop (unat totalBytesSent) dataToSend"
            by (metis add.commute append_take_drop_id drop_drop)
          ultimately show ?thesis
            using fin r0 by (simp add: send_post_def res bytes_written_Cons be e_def)
        next
          case nfin: False
          with post' obtain n where "list_all is_write (snd res')"
            and "\<exists>e \<in> set (snd res'). write_failed e"
            and n: "n < length dataToSend - (unat totalBytesSent + nat r)"
            and bw: "bytes_written (snd res') = take n (drop (unat totalBytesSent + nat r) dataToSend)"
            by (auto simp: send_post_def split: prod.splits)
          moreover have "take (nat r) (drop (unat totalBytesSent) dataToSend)
                          @ take n (drop (unat totalBytesSent + nat r) dataToSend)
                       = take (nat r + n) (drop (unat totalBytesSent) dataToSend)"
          proof -
            have "drop (unat totalBytesSent + nat r) dataToSend
                    = drop (nat r) (drop (unat totalBytesSent) dataToSend)"
              by (simp add: add.commute)
            then show ?thesis by (simp only: take_add)
          qed
          moreover have "nat r + n < length dataToSend - unat totalBytesSent"
            using n nr by linarith
          ultimately show ?thesis
            using nfin by (auto simp: send_post_def res bytes_written_Cons be e_def)
        qed
      qed
    qed
  qed
qed

lemma SendUartMessage_loop_zero_writes:
  assumes "SendUartMessage_loop wr fd dataToSend totalBytesToSend totalBytesSent sendIterations
             = Some res"
  shows "\<not> ((\<forall>k n. wr k n = 0) \<and> totalBytesSent < totalBytesToSend)"
proof (rule SendUartMessage_loop.raw_induct
    [where P = "\<lambda>wr fd dataToSend totalBytesToSend totalBytesSent sendIterations res.
         \<not> ((\<forall>k n. wr k n = 0) \<and> totalBytesSent < totalBytesToSend)", OF _ assms],
    goal_cases)
  case (1 loop wr fd dataToSend totalBytesToSend totalBytesSent sendIterations res)
  note IH = 1(1) and body = 1(2)
  show ?case
  proof
    assume a: "(\<forall>k n. wr k n = 0) \<and> totalBytesSent < totalBytesToSend"
    with body obtain res' where
      "loop wr fd dataToSend totalBytesToSend totalBytesSent (sendIterations + 1) = Some res'"
      by (auto simp: Option.bind_eq_Some_conv)
    from IH [OF this] a show False by simp
  qed
qed

lemma SendUartMessage_loop_first_write:
  assumes "totalBytesSent < totalBytesToSend"
    and "SendUartMessage_loop wr fd dataToSend totalBytesToSend totalBytesSent sendIterations
             = Some (finished, evs)"
  shows "\<exists>evs'. evs = Call_write fd (drop (unat totalBytesSent) dataToSend)
                   (totalBytesToSend - totalBytesSent)
                   (wr sendIterations (unat (totalBytesToSend - totalBytesSent))) # evs'"
  using assms(2)
  by (subst (asm) SendUartMessage_loop.simps)
     (auto simp: assms(1) Option.bind_eq_Some_conv split: if_splits)


lemma SendUartMessage_loop_shape:
  assumes "SendUartMessage_loop wr fd dataToSend totalBytesToSend totalBytesSent sendIterations
             = Some res"
  shows "list_all is_write (snd res) \<and> (fst res \<longleftrightarrow> \<not> list_ex write_failed (snd res))"
proof (rule SendUartMessage_loop.raw_induct
    [where P = "\<lambda>wr fd dataToSend totalBytesToSend totalBytesSent sendIterations res.
         list_all is_write (snd res) \<and> (fst res \<longleftrightarrow> \<not> list_ex write_failed (snd res))",
     OF _ assms], goal_cases)
  case (1 loop wr fd dataToSend totalBytesToSend totalBytesSent sendIterations res)
  note IH = 1(1) and body = 1(2)
  show ?case
  proof (cases "totalBytesSent < totalBytesToSend")
    case False
    with body show ?thesis by auto
  next
    case True
    show ?thesis
    proof (cases "wr sendIterations (unat (totalBytesToSend - totalBytesSent)) < 0")
      case neg: True
      with True body show ?thesis by auto
    next
      case False
      with True body obtain res' where
        rec: "loop wr fd dataToSend totalBytesToSend
                (totalBytesSent
                   + word_of_int (wr sendIterations (unat (totalBytesToSend - totalBytesSent))))
                (sendIterations + 1) = Some res'"
        and res: "res = (fst res',
                    Call_write fd (drop (unat totalBytesSent) dataToSend)
                      (totalBytesToSend - totalBytesSent)
                      (wr sendIterations (unat (totalBytesToSend - totalBytesSent))) # snd res')"
        by (auto simp: Option.bind_eq_Some_conv)
      from IH [OF rec] False show ?thesis by (simp add: res)
    qed
  qed
qed

lemma SendUartMessage_loop_stops:
  assumes "SendUartMessage_loop wr fd dataToSend totalBytesToSend totalBytesSent sendIterations
             = Some res"
  shows "\<not> fst res \<longrightarrow>
           snd res \<noteq> [] \<and> write_failed (last (snd res)) \<and>
           \<not> list_ex write_failed (butlast (snd res))"
proof (rule SendUartMessage_loop.raw_induct
    [where P = "\<lambda>wr fd dataToSend totalBytesToSend totalBytesSent sendIterations res.
         \<not> fst res \<longrightarrow>
           snd res \<noteq> [] \<and> write_failed (last (snd res)) \<and>
           \<not> list_ex write_failed (butlast (snd res))",
     OF _ assms], goal_cases)
  case (1 loop wr fd dataToSend totalBytesToSend totalBytesSent sendIterations res)
  note IH = 1(1) and body = 1(2)
  show ?case
  proof (cases "totalBytesSent < totalBytesToSend")
    case False
    with body show ?thesis by auto
  next
    case True
    show ?thesis
    proof (cases "wr sendIterations (unat (totalBytesToSend - totalBytesSent)) < 0")
      case neg: True
      with True body show ?thesis by auto
    next
      case False
      with True body obtain res' where
        rec: "loop wr fd dataToSend totalBytesToSend
                (totalBytesSent
                   + word_of_int (wr sendIterations (unat (totalBytesToSend - totalBytesSent))))
                (sendIterations + 1) = Some res'"
        and res: "res = (fst res',
                    Call_write fd (drop (unat totalBytesSent) dataToSend)
                      (totalBytesToSend - totalBytesSent)
                      (wr sendIterations (unat (totalBytesToSend - totalBytesSent))) # snd res')"
        by (auto simp: Option.bind_eq_Some_conv)
      from IH [OF rec] False show ?thesis by (simp add: res)
    qed
  qed
qed

subsection \<open>SendUartMessage and the button handler\<close>

lemma unat_strlen: "length s < 4294967296 \<Longrightarrow> unat (strlen s) = length s"
  by (simp add: strlen_def unat_of_nat)

lemma length_messageToSend: "length messageToSend = 33"
  by (simp add: messageToSend_def)

lemma strlen_messageToSend: "strlen messageToSend = 33"
  by (simp add: strlen_def length_messageToSend)

lemma SendUartMessage_returns:
  assumes "write_ok wr" "write_progress wr"
  shows "\<exists>g' evs. SendUartMessage wr fd dataToSend g = Some (g', evs)"
proof -
  from SendUartMessage_loop_returns [OF assms, of 0 "strlen dataToSend" fd dataToSend 0]
  obtain finished evs where
    "SendUartMessage_loop wr fd dataToSend (strlen dataToSend) 0 0 = Some (finished, evs)"
    by auto
  then show ?thesis by (simp add: SendUartMessage_def)
qed

lemma SendUartMessage_shape:
  assumes "SendUartMessage wr fd dataToSend g = Some (g', evs)"
  shows "list_all is_write evs"
    and "g' = (if list_ex write_failed evs then g\<lparr>terminationRequired := True\<rparr> else g)"
proof -
  from assms obtain finished where
    loop: "SendUartMessage_loop wr fd dataToSend (strlen dataToSend) 0 0 = Some (finished, evs)"
    and g': "g' = (if finished then g else g\<lparr>terminationRequired := True\<rparr>)"
    by (auto simp: SendUartMessage_def Option.bind_eq_Some_conv)
  from SendUartMessage_loop_shape [OF loop]
  have "list_all is_write evs" and "finished \<longleftrightarrow> \<not> list_ex write_failed evs" by simp_all
  then show "list_all is_write evs"
    and "g' = (if list_ex write_failed evs then g\<lparr>terminationRequired := True\<rparr> else g)"
    using g' by simp_all
qed

lemma SendUartMessage_stops:
  assumes "SendUartMessage wr fd dataToSend g = Some (g', evs)" and "list_ex write_failed evs"
  shows "evs \<noteq> [] \<and> write_failed (last evs) \<and> \<not> list_ex write_failed (butlast evs)"
proof -
  from assms(1) obtain finished where
    loop: "SendUartMessage_loop wr fd dataToSend (strlen dataToSend) 0 0 = Some (finished, evs)"
    by (auto simp: SendUartMessage_def Option.bind_eq_Some_conv)
  from SendUartMessage_loop_shape [OF loop] assms(2) have "\<not> finished" by simp
  with SendUartMessage_loop_stops [OF loop] show ?thesis by simp
qed

lemma SendUartMessage_bytes:
  assumes ok: "write_ok wr" and len: "length dataToSend < 4294967296"
    and send: "SendUartMessage wr fd dataToSend g = Some (g', evs)"
  shows "if list_ex write_failed evs
         then \<exists>n<length dataToSend. bytes_written evs = take n dataToSend
         else bytes_written evs = dataToSend"
proof -
  from send obtain finished where
    loop: "SendUartMessage_loop wr fd dataToSend (strlen dataToSend) 0 0 = Some (finished, evs)"
    by (auto simp: SendUartMessage_def Option.bind_eq_Some_conv)
  from SendUartMessage_loop_post [OF loop] ok unat_strlen [OF len]
  have "send_post dataToSend (finished, evs)" by simp
  then show ?thesis
    by (auto simp: send_post_def list_ex_iff list_all_iff split: if_splits)
qed

lemma SendUartMessage_first_write:
  assumes "0 < strlen dataToSend"
    and "SendUartMessage wr fd dataToSend g = Some (g', evs)"
  shows "\<exists>evs'. evs = Call_write fd dataToSend (strlen dataToSend)
                         (wr 0 (unat (strlen dataToSend))) # evs'"
proof -
  from assms(2) obtain finished where
    loop: "SendUartMessage_loop wr fd dataToSend (strlen dataToSend) 0 0 = Some (finished, evs)"
    by (auto simp: SendUartMessage_def Option.bind_eq_Some_conv)
  from SendUartMessage_loop_first_write [OF assms(1) loop] show ?thesis by simp
qed

text \<open>The handler on a firing that delivers a sample.\<close>

lemma handler_no_edge:
  assumes "sampled inp" "\<not> (newButtonState inp \<noteq> buttonState g \<and> newButtonState inp = GPIO_Value_Low)"
  shows "ButtonPollTimerEventHandler inp g =
           Some (g\<lparr>buttonState := newButtonState inp\<rparr>,
             [Call_ConsumeTimerFdEvent (buttonPollTimerFd g),
              Call_GPIO_GetValue (triggerSendButtonGpioFd g)])"
  using assms by (auto simp: ButtonPollTimerEventHandler_def sampled_def)

lemma handler_press_edge:
  assumes "sampled inp" "newButtonState inp \<noteq> buttonState g" "newButtonState inp = GPIO_Value_Low"
  shows "ButtonPollTimerEventHandler inp g =
           (case SendUartMessage (write_results inp) (uartFd g) messageToSend g of
              None \<Rightarrow> None
            | Some (g', evs) \<Rightarrow>
                Some (g'\<lparr>buttonState := GPIO_Value_Low\<rparr>,
                  Call_ConsumeTimerFdEvent (buttonPollTimerFd g)
                    # Call_GPIO_GetValue (triggerSendButtonGpioFd g) # evs))"
  using assms
  by (auto simp: ButtonPollTimerEventHandler_def sampled_def split: option.splits)

lemma handler_step:
  assumes s: "sampled inp" and h: "ButtonPollTimerEventHandler inp g = Some (g', evs)"
  shows "send_triggered evs \<longleftrightarrow>
           (newButtonState inp \<noteq> buttonState g \<and> newButtonState inp = GPIO_Value_Low)"
    and "buttonState g' = newButtonState inp"
proof -
  show "send_triggered evs \<longleftrightarrow>
           (newButtonState inp \<noteq> buttonState g \<and> newButtonState inp = GPIO_Value_Low)"
  proof (cases "newButtonState inp \<noteq> buttonState g \<and> newButtonState inp = GPIO_Value_Low")
    case False
    from handler_no_edge [OF s False] h show ?thesis
      using False by (auto simp: send_triggered_def)
  next
    case True
    with handler_press_edge [OF s] h obtain g1 evs1 where
      send: "SendUartMessage (write_results inp) (uartFd g) messageToSend g = Some (g1, evs1)"
      and evs: "evs = Call_ConsumeTimerFdEvent (buttonPollTimerFd g)
                     # Call_GPIO_GetValue (triggerSendButtonGpioFd g) # evs1"
      by (auto split: option.splits)
    from SendUartMessage_first_write [OF _ send] obtain evs' where
      "evs1 = Call_write (uartFd g) messageToSend (strlen messageToSend)
                (write_results inp 0 (unat (strlen messageToSend))) # evs'"
      by (auto simp: strlen_messageToSend)
    with evs True show ?thesis by (auto simp: send_triggered_def)
  qed
  show "buttonState g' = newButtonState inp"
  proof (cases "newButtonState inp \<noteq> buttonState g \<and> newButtonState inp = GPIO_Value_Low")
    case False
    from handler_no_edge [OF s False] h show ?thesis by auto
  next
    case True
    with handler_press_edge [OF s] h show ?thesis by (auto split: option.splits)
  qed
qed

lemma run_post:
  assumes "list_all sampled inps"
    and "ButtonPollTimerEventHandler_run inps g = Some (g', traces)"
  shows "length traces = length inps \<and>
         (\<forall>i<length inps.
            send_triggered (traces ! i) \<longleftrightarrow>
              (newButtonState (inps ! i)
                 \<noteq> (if i = 0 then buttonState g else newButtonState (inps ! (i - 1)))
               \<and> newButtonState (inps ! i) = GPIO_Value_Low)) \<and>
         buttonState g' = (if inps = [] then buttonState g else newButtonState (last inps))"
  using assms
proof (induction inps arbitrary: g traces)
  case Nil
  then show ?case by simp
next
  case (Cons inp inps)
  from Cons.prems(2) obtain g1 evs traces' where
    h: "ButtonPollTimerEventHandler inp g = Some (g1, evs)"
    and r: "ButtonPollTimerEventHandler_run inps g1 = Some (g', traces')"
    and t: "traces = evs # traces'"
    by (auto split: option.splits)
  from Cons.prems(1) have s: "sampled inp" and ss: "list_all sampled inps" by simp_all
  note step = handler_step [OF s h]
  note IH = Cons.IH [OF ss r]
  have len: "length traces = length (inp # inps)" using IH t by simp
  have idx: "send_triggered (traces ! i) \<longleftrightarrow>
              (newButtonState ((inp # inps) ! i)
                 \<noteq> (if i = 0 then buttonState g else newButtonState ((inp # inps) ! (i - 1)))
               \<and> newButtonState ((inp # inps) ! i) = GPIO_Value_Low)"
    if "i < length (inp # inps)" for i
  proof (cases i)
    case 0
    then show ?thesis using step(1) t by simp
  next
    case (Suc j)
    with that have j: "j < length inps" by simp
    from IH j have "send_triggered (traces' ! j) \<longleftrightarrow>
              (newButtonState (inps ! j)
                 \<noteq> (if j = 0 then buttonState g1 else newButtonState (inps ! (j - 1)))
               \<and> newButtonState (inps ! j) = GPIO_Value_Low)"
      by blast
    then show ?thesis
      using Suc t step(2) by (cases j) simp_all
  qed
  have fin: "buttonState g' = newButtonState (last (inp # inps))"
    using IH step(2) by simp
  from len idx fin show ?case by simp
qed

lemma run_returns:
  assumes "list_all (\<lambda>inp. write_ok (write_results inp) \<and> write_progress (write_results inp)) inps"
  shows "\<exists>res. ButtonPollTimerEventHandler_run inps g = Some res"
  using assms
proof (induction inps arbitrary: g)
  case Nil
  then show ?case by simp
next
  case (Cons inp inps)
  then have ok: "write_ok (write_results inp)" and pr: "write_progress (write_results inp)"
    and rest: "list_all (\<lambda>inp. write_ok (write_results inp) \<and> write_progress (write_results inp)) inps"
    by simp_all
  from SendUartMessage_returns [OF ok pr] obtain g1 evs1 where
    "SendUartMessage (write_results inp) (uartFd g) messageToSend g = Some (g1, evs1)"
    by blast
  then have "\<exists>res. ButtonPollTimerEventHandler inp g = Some res"
    by (simp add: ButtonPollTimerEventHandler_def)
  then obtain g2 evs2 where h: "ButtonPollTimerEventHandler inp g = Some (g2, evs2)"
    by auto
  from Cons.IH [OF rest, of g2] obtain g3 traces where
    "ButtonPollTimerEventHandler_run inps g2 = Some (g3, traces)" by auto
  with h show ?case by simp
qed

lemma write_all_ok: "write_ok write_all" "write_progress write_all"
  by (simp_all add: write_ok_def write_progress_def write_all_def)

lemma unat_strlen_le: "unat (strlen s) \<le> length s"
  by (simp add: strlen_def unat_of_nat)

lemma write_ten_then_fail_ok: "write_ok write_ten_then_fail"
  by (simp add: write_ok_def write_ten_then_fail_def)

lemma write_ten_at_a_time_ok: "write_ok write_ten_at_a_time" "write_progress write_ten_at_a_time"
  by (simp_all add: write_ok_def write_progress_def write_ten_at_a_time_def)

subsection \<open>The receive handler\<close>

lemma word_mod_2_eq_1_iff: "(w mod 2 = 1) \<longleftrightarrow> odd (unat w)" for w :: size_t
proof -
  have "(w mod 2 = 1) \<longleftrightarrow> unat (w mod 2) = unat (1 :: size_t)"
    by (simp only: word_unat_eq_iff)
  also have "\<dots> \<longleftrightarrow> unat w mod 2 = 1"
    by (simp add: unat_mod)
  also have "\<dots> \<longleftrightarrow> odd (unat w)"
    by (simp add: odd_iff_mod_2_eq_one)
  finally show ?thesis .
qed

lemma unat_add_read:
  fixes c :: size_t
  assumes "0 \<le> r"
  shows "unat (c + word_of_int r) = (unat c + nat r) mod 4294967296"
proof -
  have "word_of_int r = (word_of_nat (nat r) :: size_t)"
    using assms by simp
  then show ?thesis
    by (simp add: unat_word_ariths unat_of_nat mod_add_right_eq)
qed

lemma odd_mod_word: "odd (n mod 4294967296) \<longleftrightarrow> odd (n :: nat)"
proof -
  have "(2::nat) dvd 4294967296" by simp
  then show ?thesis by (simp add: dvd_mod_iff)
qed

lemma unat_size_t_less: "unat w < 4294967296" for w :: size_t
  using unsigned_less [of w] by simp

lemma uart_step:
  assumes "received inp"
  shows "UartEventHandler inp g =
           ((if setvalue_result inp \<noteq> 0
             then g\<lparr>totalBytesReceived := totalBytesReceived g + word_of_int (read_result inp),
                    terminationRequired := True\<rparr>
             else g\<lparr>totalBytesReceived := totalBytesReceived g + word_of_int (read_result inp)\<rparr>),
            [Call_read (uartFd g) 256 (read_result inp),
             Call_GPIO_SetValue (incomingDataLedGpioFd g)
               (if odd (unat (totalBytesReceived g) + nat (read_result inp))
                then GPIO_Value_Low else GPIO_Value_High)])"
proof -
  from assms have pos: "0 < read_result inp" by (simp add: received_def)
  then have r0: "0 \<le> read_result inp" by simp
  have "(totalBytesReceived g + word_of_int (read_result inp)) mod 2 = 1
          \<longleftrightarrow> odd (unat (totalBytesReceived g) + nat (read_result inp))"
    by (simp only: word_mod_2_eq_1_iff unat_add_read [OF r0] odd_mod_word)
  with pos show ?thesis
    by (simp add: UartEventHandler_def Let_def receiveBufferSize_def)
qed

lemma bytes_read_Cons: "bytes_read (inp # inps) = nat (read_result inp) + bytes_read inps"
  by (simp add: bytes_read_def)

lemma bytes_read_Nil: "bytes_read [] = 0"
  by (simp add: bytes_read_def)

lemma uart_run:
  assumes "list_all received inps" and "UartEventHandler_run inps g = (g', traces)"
  shows "unat (totalBytesReceived g') = (unat (totalBytesReceived g) + bytes_read inps) mod 4294967296 \<and>
         length traces = length inps \<and>
         (\<forall>i<length inps.
            traces ! i =
              [Call_read (uartFd g) 256 (read_result (inps ! i)),
               Call_GPIO_SetValue (incomingDataLedGpioFd g)
                 (if odd (unat (totalBytesReceived g) + bytes_read (take (Suc i) inps))
                  then GPIO_Value_Low else GPIO_Value_High)]) \<and>
         uartFd g' = uartFd g \<and> incomingDataLedGpioFd g' = incomingDataLedGpioFd g"
  using assms
proof (induction inps arbitrary: g traces)
  case Nil
  then show ?case by (simp add: bytes_read_Nil unat_size_t_less)
next
  case (Cons inp inps)
  from Cons.prems(1) have rc: "received inp" and rest: "list_all received inps" by simp_all
  obtain g1 evs where h: "UartEventHandler inp g = (g1, evs)" by (cases "UartEventHandler inp g")
  with Cons.prems(2) obtain traces' where
    r: "UartEventHandler_run inps g1 = (g', traces')" and t: "traces = evs # traces'"
    by (auto split: prod.splits)
  from rc have r0: "0 \<le> read_result inp" by (simp add: received_def)
  from uart_step [OF rc, of g] h
  have tot: "totalBytesReceived g1 = totalBytesReceived g + word_of_int (read_result inp)"
    and fds: "uartFd g1 = uartFd g" "incomingDataLedGpioFd g1 = incomingDataLedGpioFd g"
    and evs: "evs = [Call_read (uartFd g) 256 (read_result inp),
             Call_GPIO_SetValue (incomingDataLedGpioFd g)
               (if odd (unat (totalBytesReceived g) + nat (read_result inp))
                then GPIO_Value_Low else GPIO_Value_High)]"
    by (auto split: if_splits)
  have u1: "unat (totalBytesReceived g1)
              = (unat (totalBytesReceived g) + nat (read_result inp)) mod 4294967296"
    by (simp only: tot unat_add_read [OF r0])
  note IH = Cons.IH [OF rest r]
  have total: "unat (totalBytesReceived g')
                 = (unat (totalBytesReceived g) + bytes_read (inp # inps)) mod 4294967296"
  proof -
    from IH have "unat (totalBytesReceived g')
        = ((unat (totalBytesReceived g) + nat (read_result inp)) mod 4294967296 + bytes_read inps)
            mod 4294967296"
      by (simp only: u1)
    also have "\<dots> = (unat (totalBytesReceived g) + nat (read_result inp) + bytes_read inps)
            mod 4294967296"
      by (simp only: mod_add_left_eq)
    finally show ?thesis by (simp add: bytes_read_Cons add.assoc)
  qed
  have idx: "traces ! i =
              [Call_read (uartFd g) 256 (read_result ((inp # inps) ! i)),
               Call_GPIO_SetValue (incomingDataLedGpioFd g)
                 (if odd (unat (totalBytesReceived g) + bytes_read (take (Suc i) (inp # inps)))
                  then GPIO_Value_Low else GPIO_Value_High)]"
    if "i < length (inp # inps)" for i
  proof (cases i)
    case 0
    then show ?thesis by (simp add: t evs bytes_read_Cons bytes_read_Nil)
  next
    case (Suc j)
    with that have j: "j < length inps" by simp
    have par: "odd (unat (totalBytesReceived g1) + bytes_read (take (Suc j) inps))
                 \<longleftrightarrow> odd (unat (totalBytesReceived g) + nat (read_result inp)
                          + bytes_read (take (Suc j) inps))"
    proof -
      have "odd (unat (totalBytesReceived g1) + bytes_read (take (Suc j) inps))
              \<longleftrightarrow> odd ((unat (totalBytesReceived g1) + bytes_read (take (Suc j) inps)) mod 4294967296)"
        by (simp only: odd_mod_word)
      also have "(unat (totalBytesReceived g1) + bytes_read (take (Suc j) inps)) mod 4294967296
                   = (unat (totalBytesReceived g) + nat (read_result inp)
                          + bytes_read (take (Suc j) inps)) mod 4294967296"
        by (simp only: u1 mod_add_left_eq)
      finally show ?thesis by (simp only: odd_mod_word)
    qed
    from IH j have "traces' ! j =
              [Call_read (uartFd g1) 256 (read_result (inps ! j)),
               Call_GPIO_SetValue (incomingDataLedGpioFd g1)
                 (if odd (unat (totalBytesReceived g1) + bytes_read (take (Suc j) inps))
                  then GPIO_Value_Low else GPIO_Value_High)]"
      by blast
    then have tr: "traces' ! j =
              [Call_read (uartFd g) 256 (read_result (inps ! j)),
               Call_GPIO_SetValue (incomingDataLedGpioFd g)
                 (if odd (unat (totalBytesReceived g) + nat (read_result inp)
                          + bytes_read (take (Suc j) inps))
                  then GPIO_Value_Low else GPIO_Value_High)]"
      by (simp only: fds par)
    have br: "unat (totalBytesReceived g) + bytes_read (take (Suc i) (inp # inps))
                = unat (totalBytesReceived g) + nat (read_result inp)
                    + bytes_read (take (Suc j) inps)"
      by (simp add: Suc bytes_read_Cons)
    have nth: "traces ! i = traces' ! j" "(inp # inps) ! i = inps ! j"
      by (simp_all add: Suc t)
    show ?thesis by (simp only: nth br tr)
  qed
  from total idx IH t fds show ?case by simp
qed


lemma list_all_replicate: "list_all P (replicate n x) \<longleftrightarrow> n = 0 \<or> P x"
  by (induction n) auto

lemma bytes_read_replicate: "bytes_read (replicate n x) = n * nat (read_result x)"
  by (induction n) (simp_all add: bytes_read_Nil bytes_read_Cons)

lemma uart_run_replicate:
  assumes "received x"
  shows "unat (totalBytesReceived (fst (UartEventHandler_run (replicate n x) g)))
           = (unat (totalBytesReceived g) + n * nat (read_result x)) mod 4294967296"
proof -
  obtain g' traces where r: "UartEventHandler_run (replicate n x) g = (g', traces)"
    by (cases "UartEventHandler_run (replicate n x) g")
  have "list_all received (replicate n x)"
    using assms by (simp only: list_all_replicate) simp
  from uart_run [OF this r] show ?thesis
    by (simp only: r fst_conv bytes_read_replicate)
qed

lemma received_receive_256: "received (receive 256)"
  by (simp add: received_def receive_def)

subsection \<open>Initialisation, shutdown and main\<close>

lemma released_Close:
  "released (snd (ClosePeripheralsAndHandlers r g)) =
     [incomingDataLedGpioFd g, buttonPollTimerFd g, triggerSendButtonGpioFd g, uartFd g, epollFd g]"
  by (simp add: ClosePeripheralsAndHandlers_def released_def)

lemma acquired_Init:
  assumes "InitPeripheralsAndHandlers inp g0 = (rc, g, evs)"
  shows "set (acquired evs)
           \<subseteq> {incomingDataLedGpioFd g, buttonPollTimerFd g, triggerSendButtonGpioFd g,
               uartFd g, epollFd g}"
  using assms
  by (auto simp: InitPeripheralsAndHandlers_def Let_def acquired_def split: if_splits)

lemma acquired_Init_success:
  assumes "InitPeripheralsAndHandlers inp g0 = (0, g, evs)"
  shows "acquired evs
           = [epollFd g, uartFd g, triggerSendButtonGpioFd g, buttonPollTimerFd g,
              incomingDataLedGpioFd g]"
    and "0 \<le> incomingDataLedGpioFd g"
  using assms
  by (auto simp: InitPeripheralsAndHandlers_def Let_def acquired_def split: if_splits)

lemma Init_fails_iff:
  "fst (InitPeripheralsAndHandlers inp g0) \<noteq> 0 \<longleftrightarrow> acquisition_failed inp"
  by (auto simp: InitPeripheralsAndHandlers_def Let_def acquisition_failed_def)

lemma Init_rc: "fst (InitPeripheralsAndHandlers inp g0) = 0 \<or> fst (InitPeripheralsAndHandlers inp g0) = -1"
  by (simp add: InitPeripheralsAndHandlers_def Let_def)

lemma Init_no_wait:
  "\<not> list_ex is_wait (snd (snd (InitPeripheralsAndHandlers inp g0)))"
  by (simp add: InitPeripheralsAndHandlers_def Let_def)

lemma Close_no_wait: "\<not> list_ex is_wait (snd (ClosePeripheralsAndHandlers r g))"
  by (simp add: ClosePeripheralsAndHandlers_def)

lemma dispatch_loop_terminated:
  "terminationRequired g \<Longrightarrow> dispatch_loop wakeups g = Some (g, [])"
  by (cases wakeups) simp_all

section \<open>The claims\<close>

text \<open>
  Claim C1. For every sequence of button samples the handler processes, from any globals
  \<open>g\<close>: a send is triggered at sample \<open>i\<close> (the trace of that invocation holds a
  \<open>write\<close>) if and only if the sample differs from the button state recorded just before
  it (the state of \<open>g\<close> for the first sample, the previous sample afterwards) and is
  \<open>GPIO_Value_Low\<close>; a sample that is \<open>GPIO_Value_High\<close> never triggers a send; and
  after the last sample the recorded button state is that sample. The handler returns on
  every such sequence when each \<open>write\<close> keeps its contract and makes progress.
\<close>

theorem button_send_iff_press_edge:
  assumes "list_all sampled inps"
  shows "(list_all (\<lambda>inp. write_ok (write_results inp) \<and> write_progress (write_results inp)) inps
            \<longrightarrow> ButtonPollTimerEventHandler_run inps g \<noteq> None) \<and>
         (\<forall>g' traces. ButtonPollTimerEventHandler_run inps g = Some (g', traces) \<longrightarrow>
            length traces = length inps \<and>
            (\<forall>i<length inps.
               (send_triggered (traces ! i) \<longleftrightarrow>
                 (newButtonState (inps ! i)
                    \<noteq> (if i = 0 then buttonState g else newButtonState (inps ! (i - 1)))
                  \<and> newButtonState (inps ! i) = GPIO_Value_Low)) \<and>
               (newButtonState (inps ! i) = GPIO_Value_High \<longrightarrow> \<not> send_triggered (traces ! i))) \<and>
            (inps \<noteq> [] \<longrightarrow> buttonState g' = newButtonState (last inps)))"
proof -
  have returns:
    "list_all (\<lambda>inp. write_ok (write_results inp) \<and> write_progress (write_results inp)) inps
       \<longrightarrow> ButtonPollTimerEventHandler_run inps g \<noteq> None"
    using run_returns [of inps g] by auto
  have post:
    "length traces = length inps \<and>
     (\<forall>i<length inps.
        (send_triggered (traces ! i) \<longleftrightarrow>
          (newButtonState (inps ! i)
             \<noteq> (if i = 0 then buttonState g else newButtonState (inps ! (i - 1)))
           \<and> newButtonState (inps ! i) = GPIO_Value_Low)) \<and>
        (newButtonState (inps ! i) = GPIO_Value_High \<longrightarrow> \<not> send_triggered (traces ! i))) \<and>
     (inps \<noteq> [] \<longrightarrow> buttonState g' = newButtonState (last inps))"
    if r: "ButtonPollTimerEventHandler_run inps g = Some (g', traces)" for g' traces
    using run_post [OF assms r] by auto
  from returns post show ?thesis by blast
qed

text \<open>
  The samples High, Low, Low, High, Low from a running program: sends at the second and
  at the fifth sample, and the button is recorded as pressed at the end.
\<close>

theorem button_send_iff_press_edge_witness:
  "list_all sampled press_release_press \<and>
   map send_triggered
     (snd (the (ButtonPollTimerEventHandler_run press_release_press running_globals)))
     = [False, True, False, False, True] \<and>
   buttonState (fst (the (ButtonPollTimerEventHandler_run press_release_press running_globals)))
     = GPIO_Value_Low"
  using button_send_iff_press_edge [of press_release_press running_globals]
  by (simp add: press_release_press_def sample_def running_globals_def sampled_def
        ButtonPollTimerEventHandler_def SendUartMessage_def SendUartMessage_loop.simps
        strlen_messageToSend write_all_def send_triggered_def)

text \<open>
  Claim C2, as amended. On a press edge the first \<open>write\<close> is handed the literal
  \<open>AT$RC\n\rAT$SF=692665535048455245\n\r\<close> and its length 33. When each \<open>write\<close> keeps
  its contract, a handler that returns has either written the message in full, with no
  failed call and the termination flag as it was, or met a failed \<open>write\<close>: then it
  stopped at once, the failed \<open>write\<close> being the last call it made and the only one
  that failed, the termination flag is set and the bytes written are a proper prefix of
  the message, the part the earlier calls had accepted, which may be empty and need not
  be. The handler returns when, moreover, each successful \<open>write\<close> makes progress.
\<close>

theorem press_edge_send:
  assumes "sampled inp" "newButtonState inp = GPIO_Value_Low" "buttonState g = GPIO_Value_High"
    and ok: "write_ok (write_results inp)"
  shows "(write_progress (write_results inp) \<longrightarrow> ButtonPollTimerEventHandler inp g \<noteq> None) \<and>
         (\<forall>g' evs. ButtonPollTimerEventHandler inp g = Some (g', evs) \<longrightarrow>
            (\<exists>r evs'. filter is_write evs = Call_write (uartFd g) messageToSend 33 r # evs') \<and>
            (if list_ex write_failed evs
             then terminationRequired g' \<and> (\<exists>n<33. bytes_written evs = take n messageToSend) \<and>
                  write_failed (last evs) \<and> \<not> list_ex write_failed (butlast evs)
             else bytes_written evs = messageToSend \<and>
                  terminationRequired g' = terminationRequired g))"
proof -
  have edge: "newButtonState inp \<noteq> buttonState g" using assms(2,3) by simp
  note h = handler_press_edge [OF assms(1) edge assms(2)]
  have returns: "write_progress (write_results inp) \<longrightarrow> ButtonPollTimerEventHandler inp g \<noteq> None"
  proof
    assume "write_progress (write_results inp)"
    from SendUartMessage_returns [OF ok this, of "uartFd g" messageToSend g]
    show "ButtonPollTimerEventHandler inp g \<noteq> None"
      by (auto simp: h)
  qed
  have post: "(\<exists>r evs'. filter is_write evs = Call_write (uartFd g) messageToSend 33 r # evs') \<and>
            (if list_ex write_failed evs
             then terminationRequired g' \<and> (\<exists>n<33. bytes_written evs = take n messageToSend) \<and>
                  write_failed (last evs) \<and> \<not> list_ex write_failed (butlast evs)
             else bytes_written evs = messageToSend \<and>
                  terminationRequired g' = terminationRequired g)"
    if r: "ButtonPollTimerEventHandler inp g = Some (g', evs)" for g' evs
  proof -
    from r h obtain g1 evs1 where
      send: "SendUartMessage (write_results inp) (uartFd g) messageToSend g = Some (g1, evs1)"
      and g': "g' = g1\<lparr>buttonState := GPIO_Value_Low\<rparr>"
      and evs: "evs = Call_ConsumeTimerFdEvent (buttonPollTimerFd g)
                     # Call_GPIO_GetValue (triggerSendButtonGpioFd g) # evs1"
      by (auto split: option.splits)
    note shape = SendUartMessage_shape [OF send]
    have bytes: "if list_ex write_failed evs1
         then \<exists>n<length messageToSend. bytes_written evs1 = take n messageToSend
         else bytes_written evs1 = messageToSend"
      by (rule SendUartMessage_bytes [OF ok _ send]) (simp add: length_messageToSend)
    from SendUartMessage_first_write [OF _ send] obtain evs' where
      first: "evs1 = Call_write (uartFd g) messageToSend 33
                (write_results inp 0 (unat (strlen messageToSend))) # evs'"
      by (auto simp: strlen_messageToSend)
    have fw: "filter is_write evs = evs1"
      using shape(1) by (simp add: evs list_all_iff)
    have bw: "bytes_written evs = bytes_written evs1"
      by (simp add: evs bytes_written_Cons)
    have wf: "list_ex write_failed evs = list_ex write_failed evs1"
      by (simp add: evs)
    have stops: "write_failed (last evs) \<and> \<not> list_ex write_failed (butlast evs)"
      if "list_ex write_failed evs"
    proof -
      from that wf have "list_ex write_failed evs1" by simp
      from SendUartMessage_stops [OF send this]
      have "evs1 \<noteq> []" "write_failed (last evs1)" "\<not> list_ex write_failed (butlast evs1)"
        by simp_all
      then show ?thesis by (simp add: evs)
    qed
    show ?thesis
      using first fw bw wf bytes shape(2) g' stops by (auto simp: length_messageToSend)
  qed
  from returns post show ?thesis by blast
qed

text \<open>
  A press whose \<open>write\<close> calls all succeed: one call, the whole message written. A
  press whose second \<open>write\<close> fails: that call is the last of the trace.
\<close>

theorem press_edge_send_witness:
  "sampled (sample GPIO_Value_Low write_all) \<and> write_ok write_all \<and> write_progress write_all \<and>
   ButtonPollTimerEventHandler (sample GPIO_Value_Low write_all) running_globals =
     Some (running_globals\<lparr>buttonState := GPIO_Value_Low\<rparr>,
       [Call_ConsumeTimerFdEvent 6, Call_GPIO_GetValue 5, Call_write 4 messageToSend 33 33]) \<and>
   bytes_written
       [Call_ConsumeTimerFdEvent 6, Call_GPIO_GetValue 5, Call_write 4 messageToSend 33 33]
     = messageToSend \<and>
   write_ok write_ten_then_fail \<and>
   ButtonPollTimerEventHandler (sample GPIO_Value_Low write_ten_then_fail) running_globals =
     Some (running_globals\<lparr>buttonState := GPIO_Value_Low, terminationRequired := True\<rparr>,
       [Call_ConsumeTimerFdEvent 6, Call_GPIO_GetValue 5,
        Call_write 4 messageToSend 33 10,
        Call_write 4 (drop 10 messageToSend) 23 (-1)]) \<and>
   write_failed (last
       [Call_ConsumeTimerFdEvent 6, Call_GPIO_GetValue 5,
        Call_write 4 messageToSend 33 10,
        Call_write 4 (drop 10 messageToSend) 23 (-1)])"
  using press_edge_send [of "sample GPIO_Value_Low write_all" running_globals]
    press_edge_send [of "sample GPIO_Value_Low write_ten_then_fail" running_globals]
    write_all_ok write_ten_then_fail_ok
  by (simp add: sample_def running_globals_def sampled_def
        ButtonPollTimerEventHandler_def SendUartMessage_def SendUartMessage_loop.simps
        strlen_messageToSend write_all_def write_ten_then_fail_def bytes_written_def
        length_messageToSend)

text \<open>
  Claim C2 as stated fails: the send is not all-or-nothing. When the first \<open>write\<close>
  accepts ten bytes and the second fails, the ten bytes \<open>AT$RC\n\rAT$\<close> have been
  written, and the termination flag is set.
\<close>

theorem send_not_all_or_nothing:
  "ButtonPollTimerEventHandler (sample GPIO_Value_Low write_ten_then_fail) running_globals =
     Some (running_globals\<lparr>buttonState := GPIO_Value_Low, terminationRequired := True\<rparr>,
       [Call_ConsumeTimerFdEvent 6, Call_GPIO_GetValue 5,
        Call_write 4 messageToSend 33 10,
        Call_write 4 (drop 10 messageToSend) 23 (-1)]) \<and>
   bytes_written
       [Call_ConsumeTimerFdEvent 6, Call_GPIO_GetValue 5,
        Call_write 4 messageToSend 33 10,
        Call_write 4 (drop 10 messageToSend) 23 (-1)]
     = ''AT$RC'' @ [CHR 0x0A, CHR 0x0D] @ ''AT$''"
proof (rule conjI)
  show "ButtonPollTimerEventHandler (sample GPIO_Value_Low write_ten_then_fail) running_globals =
     Some (running_globals\<lparr>buttonState := GPIO_Value_Low, terminationRequired := True\<rparr>,
       [Call_ConsumeTimerFdEvent 6, Call_GPIO_GetValue 5,
        Call_write 4 messageToSend 33 10,
        Call_write 4 (drop 10 messageToSend) 23 (-1)])"
    by (simp add: sample_def running_globals_def
        ButtonPollTimerEventHandler_def SendUartMessage_def SendUartMessage_loop.simps
        strlen_messageToSend write_ten_then_fail_def)
  show "bytes_written
       [Call_ConsumeTimerFdEvent 6, Call_GPIO_GetValue 5,
        Call_write 4 messageToSend 33 10,
        Call_write 4 (drop 10 messageToSend) 23 (-1)]
     = ''AT$RC'' @ [CHR 0x0A, CHR 0x0D] @ ''AT$''"
    by (simp add: bytes_written_def messageToSend_def)
qed

text \<open>
  Claim C9. When each \<open>write\<close> keeps its contract and each successful one returns a
  positive count, the send loop returns for every message, after at most as many calls
  as the message has bytes: at each iteration that does not fail the running total grows
  strictly and stays within the total to send. When \<open>write\<close> always returns 0 and the
  message is not empty, the loop never returns.
\<close>

theorem send_loop_terminates:
  assumes ok: "write_ok wr"
  shows "(write_progress wr \<longrightarrow>
            (\<exists>finished evs.
               SendUartMessage_loop wr fd dataToSend (strlen dataToSend) 0 0 = Some (finished, evs) \<and>
               length evs \<le> length dataToSend)) \<and>
         (write_progress wr \<longrightarrow>
            (\<forall>(totalBytesToSend :: size_t) totalBytesSent k.
               totalBytesSent < totalBytesToSend \<and>
               0 \<le> wr k (unat (totalBytesToSend - totalBytesSent)) \<longrightarrow>
               totalBytesSent
                 < totalBytesSent + word_of_int (wr k (unat (totalBytesToSend - totalBytesSent))) \<and>
               totalBytesSent + word_of_int (wr k (unat (totalBytesToSend - totalBytesSent)))
                 \<le> totalBytesToSend)) \<and>
         ((\<forall>k n. wr k n = 0) \<and> 0 < strlen dataToSend \<longrightarrow>
            SendUartMessage_loop wr fd dataToSend (strlen dataToSend) 0 0 = None)"
proof -
  have returns: "\<exists>finished evs.
               SendUartMessage_loop wr fd dataToSend (strlen dataToSend) 0 0 = Some (finished, evs) \<and>
               length evs \<le> length dataToSend"
    if pr: "write_progress wr"
  proof -
    from SendUartMessage_loop_returns [OF ok pr, of 0 "strlen dataToSend" fd dataToSend 0]
    obtain finished evs where
      "SendUartMessage_loop wr fd dataToSend (strlen dataToSend) 0 0 = Some (finished, evs)"
      and "length evs \<le> unat (strlen dataToSend)"
      by auto
    with unat_strlen_le [of dataToSend] show ?thesis
      by (intro exI [of _ finished] exI [of _ evs]) simp
  qed
  have variant:
    "totalBytesSent
       < totalBytesSent + word_of_int (wr k (unat (totalBytesToSend - totalBytesSent))) \<and>
     totalBytesSent + word_of_int (wr k (unat (totalBytesToSend - totalBytesSent)))
       \<le> totalBytesToSend"
    if pr: "write_progress wr"
      and a: "totalBytesSent < totalBytesToSend \<and>
              0 \<le> wr k (unat (totalBytesToSend - totalBytesSent))"
    for totalBytesToSend totalBytesSent :: size_t and k
  proof -
    define r where "r = wr k (unat (totalBytesToSend - totalBytesSent))"
    have lt: "totalBytesSent < totalBytesToSend" and r0: "0 \<le> r"
      using a by (simp_all add: r_def)
    have rle: "r \<le> int (unat (totalBytesToSend - totalBytesSent))"
      using ok unfolding write_ok_def r_def by blast
    note st = step_unat [OF lt r0 rle]
    have "0 < unat (totalBytesToSend - totalBytesSent)"
      using lt st(1) by (simp add: word_less_nat_alt)
    with pr have "r \<noteq> 0" unfolding write_progress_def r_def by blast
    with r0 have "0 < nat r" by simp
    with st(2) have "totalBytesSent < totalBytesSent + word_of_int r"
      by (simp add: word_less_nat_alt)
    with st(3) show ?thesis by (simp add: r_def)
  qed
  have stuck: "SendUartMessage_loop wr fd dataToSend (strlen dataToSend) 0 0 = None"
    if z: "(\<forall>k n. wr k n = 0) \<and> 0 < strlen dataToSend"
  proof (cases "SendUartMessage_loop wr fd dataToSend (strlen dataToSend) 0 0")
    case None
    then show ?thesis .
  next
    case (Some res)
    from SendUartMessage_loop_zero_writes [OF Some] z show ?thesis by simp
  qed
  from returns variant stuck show ?thesis by blast
qed

text \<open>
  Ten bytes per call: the 33 bytes leave in four calls. No byte per call: the loop does
  not return.
\<close>

theorem send_loop_terminates_witness:
  "write_ok write_ten_at_a_time \<and> write_progress write_ten_at_a_time \<and>
   SendUartMessage_loop write_ten_at_a_time 4 messageToSend (strlen messageToSend) 0 0 =
     Some (True,
       [Call_write 4 messageToSend 33 10, Call_write 4 (drop 10 messageToSend) 23 10,
        Call_write 4 (drop 20 messageToSend) 13 10, Call_write 4 (drop 30 messageToSend) 3 3]) \<and>
   write_ok write_nothing \<and> 0 < strlen messageToSend \<and>
   SendUartMessage_loop write_nothing 4 messageToSend (strlen messageToSend) 0 0 = None"
proof -
  have run: "SendUartMessage_loop write_ten_at_a_time 4 messageToSend (strlen messageToSend) 0 0 =
     Some (True,
       [Call_write 4 messageToSend 33 10, Call_write 4 (drop 10 messageToSend) 23 10,
        Call_write 4 (drop 20 messageToSend) 13 10, Call_write 4 (drop 30 messageToSend) 3 3])"
    by (simp add: SendUartMessage_loop.simps strlen_messageToSend write_ten_at_a_time_def)
  have nothing_ok: "write_ok write_nothing"
    by (simp add: write_ok_def write_nothing_def)
  have stuck: "SendUartMessage_loop write_nothing 4 messageToSend (strlen messageToSend) 0 0 = None"
    using send_loop_terminates [OF nothing_ok, of 4 messageToSend]
    by (simp add: write_nothing_def strlen_messageToSend)
  from write_ten_at_a_time_ok run nothing_ok stuck show ?thesis
    by (simp add: strlen_messageToSend)
qed

text \<open>
  Claim C10. When a press edge triggers a send and a \<open>write\<close> of that send fails, the
  globals afterwards are those before with the termination flag set and the button
  recorded as \<open>GPIO_Value_Low\<close>, nothing else changed; the next firing that samples
  \<open>GPIO_Value_Low\<close> makes no \<open>write\<close> and leaves the globals as they are.
\<close>

theorem failed_send_records_press:
  assumes "sampled inp" "newButtonState inp = GPIO_Value_Low" "buttonState g = GPIO_Value_High"
    and "ButtonPollTimerEventHandler inp g = Some (g', evs)" "list_ex write_failed evs"
  shows "g' = g\<lparr>terminationRequired := True, buttonState := GPIO_Value_Low\<rparr> \<and>
         (\<forall>inp'. sampled inp' \<and> newButtonState inp' = GPIO_Value_Low \<longrightarrow>
            ButtonPollTimerEventHandler inp' g' =
              Some (g', [Call_ConsumeTimerFdEvent (buttonPollTimerFd g),
                         Call_GPIO_GetValue (triggerSendButtonGpioFd g)]))"
proof -
  have edge: "newButtonState inp \<noteq> buttonState g" using assms(2,3) by simp
  from handler_press_edge [OF assms(1) edge assms(2)] assms(4) obtain g1 evs1 where
    send: "SendUartMessage (write_results inp) (uartFd g) messageToSend g = Some (g1, evs1)"
    and g': "g' = g1\<lparr>buttonState := GPIO_Value_Low\<rparr>"
    and evs: "evs = Call_ConsumeTimerFdEvent (buttonPollTimerFd g)
                   # Call_GPIO_GetValue (triggerSendButtonGpioFd g) # evs1"
    by (auto split: option.splits)
  from assms(5) have "list_ex write_failed evs1" by (simp add: evs)
  with SendUartMessage_shape(2) [OF send] have "g1 = g\<lparr>terminationRequired := True\<rparr>"
    by simp
  with g' have eq: "g' = g\<lparr>terminationRequired := True, buttonState := GPIO_Value_Low\<rparr>"
    by simp
  have again: "ButtonPollTimerEventHandler inp' g' =
              Some (g', [Call_ConsumeTimerFdEvent (buttonPollTimerFd g),
                         Call_GPIO_GetValue (triggerSendButtonGpioFd g)])"
    if "sampled inp' \<and> newButtonState inp' = GPIO_Value_Low" for inp'
  proof -
    from that eq have "\<not> (newButtonState inp' \<noteq> buttonState g' \<and> newButtonState inp' = GPIO_Value_Low)"
      by simp
    from handler_no_edge [OF _ this] that show ?thesis by (simp add: eq)
  qed
  from eq again show ?thesis by blast
qed

text \<open>
  The press whose second \<open>write\<close> fails, followed by a second sample of the held button.
\<close>

theorem failed_send_records_press_witness:
  "sampled (sample GPIO_Value_Low write_ten_then_fail) \<and>
   ButtonPollTimerEventHandler (sample GPIO_Value_Low write_ten_then_fail) running_globals =
     Some (running_globals\<lparr>terminationRequired := True, buttonState := GPIO_Value_Low\<rparr>,
       [Call_ConsumeTimerFdEvent 6, Call_GPIO_GetValue 5,
        Call_write 4 messageToSend 33 10,
        Call_write 4 (drop 10 messageToSend) 23 (-1)]) \<and>
   ButtonPollTimerEventHandler (sample GPIO_Value_Low write_all)
       (running_globals\<lparr>terminationRequired := True, buttonState := GPIO_Value_Low\<rparr>) =
     Some (running_globals\<lparr>terminationRequired := True, buttonState := GPIO_Value_Low\<rparr>,
       [Call_ConsumeTimerFdEvent 6, Call_GPIO_GetValue 5])"
  using failed_send_records_press [of "sample GPIO_Value_Low write_ten_then_fail" running_globals
      "running_globals\<lparr>terminationRequired := True, buttonState := GPIO_Value_Low\<rparr>"
      "[Call_ConsumeTimerFdEvent 6, Call_GPIO_GetValue 5,
        Call_write 4 messageToSend 33 10,
        Call_write 4 (drop 10 messageToSend) 23 (-1)]"]
  by (simp add: sample_def running_globals_def sampled_def
        ButtonPollTimerEventHandler_def SendUartMessage_def SendUartMessage_loop.simps
        strlen_messageToSend write_ten_then_fail_def write_all_def)

text \<open>
  Claim C3, as amended. After any sequence of receives with positive byte counts, from
  globals whose counter is 0, \<open>totalBytesReceived\<close> is the sum of the bytes read modulo
  \<open>2\<^sup>3\<^sup>2\<close> (\<open>size_t\<close> wraps), so it is the sum whenever the sum is below
  \<open>2\<^sup>3\<^sup>2\<close>; and each invocation makes one \<open>read\<close> and then sets the LED to
  \<open>GPIO_Value_Low\<close> when the number of bytes read so far, this invocation included, is
  odd, and to \<open>GPIO_Value_High\<close> when it is even.
\<close>

theorem receive_counter_and_led:
  assumes "list_all received inps" and "totalBytesReceived g = 0"
    and "UartEventHandler_run inps g = (g', traces)"
  shows "unat (totalBytesReceived g') = bytes_read inps mod 4294967296 \<and>
         (bytes_read inps < 4294967296 \<longrightarrow> unat (totalBytesReceived g') = bytes_read inps) \<and>
         length traces = length inps \<and>
         (\<forall>i<length inps.
            traces ! i =
              [Call_read (uartFd g) 256 (read_result (inps ! i)),
               Call_GPIO_SetValue (incomingDataLedGpioFd g)
                 (if odd (bytes_read (take (Suc i) inps))
                  then GPIO_Value_Low else GPIO_Value_High)])"
  using uart_run [OF assms(1,3)] assms(2) by simp

text \<open>
  Five bytes then three: the counter is 8 and the LED is set High. Five bytes then four:
  the counter is 9 and the LED is set Low.
\<close>

theorem receive_counter_and_led_witness:
  "list_all received [receive 5, receive 3] \<and> totalBytesReceived running_globals = 0 \<and>
   UartEventHandler_run [receive 5, receive 3] running_globals =
     (running_globals\<lparr>totalBytesReceived := 8\<rparr>,
      [[Call_read 4 256 5, Call_GPIO_SetValue 7 GPIO_Value_Low],
       [Call_read 4 256 3, Call_GPIO_SetValue 7 GPIO_Value_High]]) \<and>
   list_all received [receive 5, receive 4] \<and>
   UartEventHandler_run [receive 5, receive 4] running_globals =
     (running_globals\<lparr>totalBytesReceived := 9\<rparr>,
      [[Call_read 4 256 5, Call_GPIO_SetValue 7 GPIO_Value_Low],
       [Call_read 4 256 4, Call_GPIO_SetValue 7 GPIO_Value_Low]])"
  using receive_counter_and_led [of "[receive 5, receive 3]" running_globals
      "running_globals\<lparr>totalBytesReceived := 8\<rparr>"
      "[[Call_read 4 256 5, Call_GPIO_SetValue 7 GPIO_Value_Low],
        [Call_read 4 256 3, Call_GPIO_SetValue 7 GPIO_Value_High]]"]
    receive_counter_and_led [of "[receive 5, receive 4]" running_globals
      "running_globals\<lparr>totalBytesReceived := 9\<rparr>"
      "[[Call_read 4 256 5, Call_GPIO_SetValue 7 GPIO_Value_Low],
        [Call_read 4 256 4, Call_GPIO_SetValue 7 GPIO_Value_Low]]"]
  by (simp add: receive_def received_def running_globals_def UartEventHandler_def
        receiveBufferSize_def Let_def)

text \<open>
  Claim C3 as stated fails once the sum reaches \<open>2\<^sup>3\<^sup>2\<close>: after 16777216 receives
  of 256 bytes each, from the initial globals, 4294967296 bytes have been read and the
  counter is 0.
\<close>

theorem receive_counter_wraps:
  "list_all received (replicate 16777216 (receive 256)) \<and>
   bytes_read (replicate 16777216 (receive 256)) = 4294967296 \<and>
   totalBytesReceived
     (fst (UartEventHandler_run (replicate 16777216 (receive 256)) initial_globals)) = 0"
proof (intro conjI)
  show "list_all received (replicate 16777216 (receive 256))"
    using received_receive_256 by (simp only: list_all_replicate) simp
  show "bytes_read (replicate 16777216 (receive 256)) = 4294967296"
    by (simp only: bytes_read_replicate) (simp add: receive_def)
  have "unat (totalBytesReceived
     (fst (UartEventHandler_run (replicate 16777216 (receive 256)) initial_globals)))
       = (unat (totalBytesReceived initial_globals) + 16777216 * nat (read_result (receive 256)))
           mod 4294967296"
    by (rule uart_run_replicate [OF received_receive_256])
  also have "\<dots> = 0"
    by (simp add: initial_globals_def receive_def)
  finally show "totalBytesReceived
     (fst (UartEventHandler_run (replicate 16777216 (receive 256)) initial_globals)) = 0"
    by (simp only: unat_eq_0)
qed

text \<open>
  Claim C4. Every invocation of the receive handler makes exactly one \<open>read\<close>, its first
  call, asking for 256 bytes. When \<open>read\<close> returns 0 the globals are unchanged and no
  other call is made; when it returns a negative value the termination flag is set and
  no other call is made.
\<close>

theorem uart_handler_single_read:
  "length (filter is_read (snd (UartEventHandler inp g))) = 1 \<and>
   hd (snd (UartEventHandler inp g)) = Call_read (uartFd g) 256 (read_result inp) \<and>
   (read_result inp = 0 \<longrightarrow> UartEventHandler inp g = (g, [Call_read (uartFd g) 256 0])) \<and>
   (read_result inp < 0 \<longrightarrow>
      UartEventHandler inp g =
        (g\<lparr>terminationRequired := True\<rparr>, [Call_read (uartFd g) 256 (read_result inp)]))"
  by (simp add: UartEventHandler_def Let_def receiveBufferSize_def)

text \<open>A \<open>read\<close> returning 0 and a \<open>read\<close> returning -1, in a running program.\<close>

theorem uart_handler_single_read_witness:
  "UartEventHandler (receive 0) running_globals = (running_globals, [Call_read 4 256 0]) \<and>
   UartEventHandler (receive (-1)) running_globals =
     (running_globals\<lparr>terminationRequired := True\<rparr>, [Call_read 4 256 (-1)])"
  using uart_handler_single_read [of "receive 0" running_globals]
    uart_handler_single_read [of "receive (-1)" running_globals]
  by (simp add: receive_def running_globals_def)

text \<open>
  Claim C8. When \<open>read\<close> returns a negative value, the globals afterwards are those
  before with the termination flag set: \<open>totalBytesReceived\<close> is unchanged and
  \<open>GPIO_SetValue\<close> is not called, so the LED is left as it was.
\<close>

theorem uart_read_error_frame:
  assumes "read_result inp < 0"
  shows "fst (UartEventHandler inp g) = g\<lparr>terminationRequired := True\<rparr> \<and>
         totalBytesReceived (fst (UartEventHandler inp g)) = totalBytesReceived g \<and>
         \<not> list_ex is_set_value (snd (UartEventHandler inp g))"
  using assms by (simp add: UartEventHandler_def)

text \<open>A \<open>read\<close> returning -1 in a running program.\<close>

theorem uart_read_error_frame_witness:
  "read_result (receive (-1)) < 0 \<and>
   fst (UartEventHandler (receive (-1)) running_globals)
     = running_globals\<lparr>terminationRequired := True\<rparr> \<and>
   snd (UartEventHandler (receive (-1)) running_globals) = [Call_read 4 256 (-1)]"
  using uart_read_error_frame [of "receive (-1)" running_globals]
  by (simp add: receive_def running_globals_def UartEventHandler_def receiveBufferSize_def)

text \<open>
  Claim C5, as amended. Shutdown leaves the globals as they are, whatever
  \<open>GPIO_SetValue\<close> returns. When the LED descriptor is valid the first call is
  \<open>GPIO_SetValue\<close> of the LED to \<open>GPIO_Value_High\<close>; when it is not, no level is forced.
  Then \<open>CloseFdAndPrintError\<close> is called on the five descriptors in the order LED, poll
  timer, button, UART, epoll: after an initialisation that succeeded, the reverse of the
  order in which they were acquired.
\<close>

theorem shutdown_sequence:
  "fst (ClosePeripheralsAndHandlers r g) = g \<and>
   (0 \<le> incomingDataLedGpioFd g \<longrightarrow>
      snd (ClosePeripheralsAndHandlers r g) =
        [Call_GPIO_SetValue (incomingDataLedGpioFd g) GPIO_Value_High,
         Call_CloseFdAndPrintError (incomingDataLedGpioFd g) ''IncomingDataLedGpio'',
         Call_CloseFdAndPrintError (buttonPollTimerFd g) ''ButtonPollTimer'',
         Call_CloseFdAndPrintError (triggerSendButtonGpioFd g) ''TriggerSendButtonGpio'',
         Call_CloseFdAndPrintError (uartFd g) ''Uart'',
         Call_CloseFdAndPrintError (epollFd g) ''Epoll'']) \<and>
   (incomingDataLedGpioFd g < 0 \<longrightarrow>
      snd (ClosePeripheralsAndHandlers r g) =
        [Call_CloseFdAndPrintError (incomingDataLedGpioFd g) ''IncomingDataLedGpio'',
         Call_CloseFdAndPrintError (buttonPollTimerFd g) ''ButtonPollTimer'',
         Call_CloseFdAndPrintError (triggerSendButtonGpioFd g) ''TriggerSendButtonGpio'',
         Call_CloseFdAndPrintError (uartFd g) ''Uart'',
         Call_CloseFdAndPrintError (epollFd g) ''Epoll'']) \<and>
   (\<forall>inp g0 evs. InitPeripheralsAndHandlers inp g0 = (0, g, evs) \<longrightarrow>
      0 \<le> incomingDataLedGpioFd g \<and>
      released (snd (ClosePeripheralsAndHandlers r g)) = rev (acquired evs))"
proof -
  have trace: "fst (ClosePeripheralsAndHandlers r g) = g \<and>
   (0 \<le> incomingDataLedGpioFd g \<longrightarrow>
      snd (ClosePeripheralsAndHandlers r g) =
        [Call_GPIO_SetValue (incomingDataLedGpioFd g) GPIO_Value_High,
         Call_CloseFdAndPrintError (incomingDataLedGpioFd g) ''IncomingDataLedGpio'',
         Call_CloseFdAndPrintError (buttonPollTimerFd g) ''ButtonPollTimer'',
         Call_CloseFdAndPrintError (triggerSendButtonGpioFd g) ''TriggerSendButtonGpio'',
         Call_CloseFdAndPrintError (uartFd g) ''Uart'',
         Call_CloseFdAndPrintError (epollFd g) ''Epoll'']) \<and>
   (incomingDataLedGpioFd g < 0 \<longrightarrow>
      snd (ClosePeripheralsAndHandlers r g) =
        [Call_CloseFdAndPrintError (incomingDataLedGpioFd g) ''IncomingDataLedGpio'',
         Call_CloseFdAndPrintError (buttonPollTimerFd g) ''ButtonPollTimer'',
         Call_CloseFdAndPrintError (triggerSendButtonGpioFd g) ''TriggerSendButtonGpio'',
         Call_CloseFdAndPrintError (uartFd g) ''Uart'',
         Call_CloseFdAndPrintError (epollFd g) ''Epoll''])"
    by (simp add: ClosePeripheralsAndHandlers_def)
  have order: "0 \<le> incomingDataLedGpioFd g \<and>
      released (snd (ClosePeripheralsAndHandlers r g)) = rev (acquired evs)"
    if "InitPeripheralsAndHandlers inp g0 = (0, g, evs)" for inp g0 evs
    using acquired_Init_success [OF that] by (simp add: released_Close)
  from trace order show ?thesis by blast
qed

text \<open>
  Shutdown of a program whose initialisation succeeded, with a \<open>GPIO_SetValue\<close> that
  fails, and shutdown of one whose LED did not open.
\<close>

theorem shutdown_sequence_witness:
  "InitPeripheralsAndHandlers init_succeeds initial_globals =
     (0, running_globals,
      [Call_sigaction_SIGTERM, Call_CreateEpollFd 3,
       Call_UART_Open MT3620_RDB_HEADER2_ISU0_UART
         (example_UART_InitConfig\<lparr>baudRate := 9600, flowControl := UART_FlowControl_None\<rparr>) 4,
       Call_RegisterEventHandlerToEpoll 3 4 uartEventData 0,
       Call_GPIO_OpenAsInput MT3620_RDB_BUTTON_A 5,
       Call_CreateTimerFdAndAddToEpoll 3 (0, 1000000) buttonPollTimerEventData 6,
       Call_GPIO_OpenAsOutput MT3620_RDB_LED2_RED GPIO_OutputMode_PushPull GPIO_Value_High 7]) \<and>
   ClosePeripheralsAndHandlers (-1) running_globals =
     (running_globals,
      [Call_GPIO_SetValue 7 GPIO_Value_High,
       Call_CloseFdAndPrintError 7 ''IncomingDataLedGpio'',
       Call_CloseFdAndPrintError 6 ''ButtonPollTimer'',
       Call_CloseFdAndPrintError 5 ''TriggerSendButtonGpio'',
       Call_CloseFdAndPrintError 4 ''Uart'',
       Call_CloseFdAndPrintError 3 ''Epoll'']) \<and>
   released (snd (ClosePeripheralsAndHandlers (-1) running_globals)) = [7, 6, 5, 4, 3] \<and>
   incomingDataLedGpioFd globals_led_failed < 0 \<and>
   released (snd (ClosePeripheralsAndHandlers 0 globals_led_failed)) = [-1, 6, 5, 4, 3]"
  using shutdown_sequence [of "-1" running_globals] shutdown_sequence [of 0 globals_led_failed]
  by (simp add: InitPeripheralsAndHandlers_def Let_def init_succeeds_def initial_globals_def
        running_globals_def globals_led_failed_def buttonPressCheckPeriod_def
        ClosePeripheralsAndHandlers_def released_def)

text \<open>
  Claim C5 as stated fails when the LED was not opened: initialisation that fails at the
  LED leaves its descriptor at -1, and the first call of the shutdown is then
  \<open>CloseFdAndPrintError\<close>; the LED is not forced.
\<close>

theorem shutdown_without_led:
  "InitPeripheralsAndHandlers init_led_fails initial_globals =
     (-1, globals_led_failed\<lparr>terminationRequired := False\<rparr>,
      [Call_sigaction_SIGTERM, Call_CreateEpollFd 3,
       Call_UART_Open MT3620_RDB_HEADER2_ISU0_UART
         (example_UART_InitConfig\<lparr>baudRate := 9600, flowControl := UART_FlowControl_None\<rparr>) 4,
       Call_RegisterEventHandlerToEpoll 3 4 uartEventData 0,
       Call_GPIO_OpenAsInput MT3620_RDB_BUTTON_A 5,
       Call_CreateTimerFdAndAddToEpoll 3 (0, 1000000) buttonPollTimerEventData 6,
       Call_GPIO_OpenAsOutput MT3620_RDB_LED2_RED GPIO_OutputMode_PushPull GPIO_Value_High (-1)]) \<and>
   ClosePeripheralsAndHandlers 0 globals_led_failed =
     (globals_led_failed,
      [Call_CloseFdAndPrintError (-1) ''IncomingDataLedGpio'',
       Call_CloseFdAndPrintError 6 ''ButtonPollTimer'',
       Call_CloseFdAndPrintError 5 ''TriggerSendButtonGpio'',
       Call_CloseFdAndPrintError 4 ''Uart'',
       Call_CloseFdAndPrintError 3 ''Epoll''])"
  by (simp add: InitPeripheralsAndHandlers_def Let_def init_led_fails_def init_succeeds_def
        initial_globals_def globals_led_failed_def buttonPressCheckPeriod_def
        ClosePeripheralsAndHandlers_def)

text \<open>
  Claim C6. If any acquisition step of the initialisation fails, the initialisation
  returns -1 and, whatever wake-ups the platform would deliver, \<open>main\<close> returns 0 with
  the termination flag set, its trace is that of the initialisation followed by that of
  the shutdown, with no call of \<open>WaitForEventAndCallHandler\<close>, and every descriptor an
  acquisition call returned is passed to \<open>CloseFdAndPrintError\<close>.
\<close>

theorem init_failure_releases_all:
  assumes "acquisition_failed inp"
    and "InitPeripheralsAndHandlers inp initial_globals = (rc, g, evs)"
  shows "rc = -1 \<and>
         main inp wakeups r =
           Some (0, g\<lparr>terminationRequired := True\<rparr>,
             evs @ snd (ClosePeripheralsAndHandlers r (g\<lparr>terminationRequired := True\<rparr>))) \<and>
         \<not> list_ex is_wait
             (evs @ snd (ClosePeripheralsAndHandlers r (g\<lparr>terminationRequired := True\<rparr>))) \<and>
         set (acquired evs)
           \<subseteq> set (released (snd (ClosePeripheralsAndHandlers r (g\<lparr>terminationRequired := True\<rparr>))))"
proof -
  from Init_fails_iff [of inp initial_globals] assms have nz: "rc \<noteq> 0" by simp
  with Init_rc [of inp initial_globals] assms(2) have rc: "rc = -1" by simp
  have m: "main inp wakeups r =
           Some (0, g\<lparr>terminationRequired := True\<rparr>,
             evs @ snd (ClosePeripheralsAndHandlers r (g\<lparr>terminationRequired := True\<rparr>)))"
    using assms(2) nz
    by (simp add: main_def dispatch_loop_terminated ClosePeripheralsAndHandlers_def)
  have w: "\<not> list_ex is_wait
             (evs @ snd (ClosePeripheralsAndHandlers r (g\<lparr>terminationRequired := True\<rparr>)))"
    using Init_no_wait [of inp initial_globals] Close_no_wait [of r "g\<lparr>terminationRequired := True\<rparr>"]
    by (simp add: assms(2))
  have a: "set (acquired evs)
           \<subseteq> set (released (snd (ClosePeripheralsAndHandlers r (g\<lparr>terminationRequired := True\<rparr>))))"
    using acquired_Init [OF assms(2)] by (simp add: released_Close)
  from rc m w a show ?thesis by blast
qed

text \<open>
  The LED fails to open: the epoll, UART, button and timer descriptors 3, 4, 5 and 6 are
  released, and the pending UART wake-up is never waited for. The registration of the
  UART fails: the epoll and UART descriptors 3 and 4 are released, and again no wake-up
  is waited for.
\<close>

theorem init_failure_releases_all_witness:
  "acquisition_failed init_led_fails \<and>
   InitPeripheralsAndHandlers init_led_fails initial_globals =
     (-1, globals_led_failed\<lparr>terminationRequired := False\<rparr>,
      [Call_sigaction_SIGTERM, Call_CreateEpollFd 3,
       Call_UART_Open MT3620_RDB_HEADER2_ISU0_UART
         (example_UART_InitConfig\<lparr>baudRate := 9600, flowControl := UART_FlowControl_None\<rparr>) 4,
       Call_RegisterEventHandlerToEpoll 3 4 uartEventData 0,
       Call_GPIO_OpenAsInput MT3620_RDB_BUTTON_A 5,
       Call_CreateTimerFdAndAddToEpoll 3 (0, 1000000) buttonPollTimerEventData 6,
       Call_GPIO_OpenAsOutput MT3620_RDB_LED2_RED GPIO_OutputMode_PushPull GPIO_Value_High (-1)]) \<and>
   main init_led_fails [Sources_ready [Uart_ready (receive 5)]] 0 =
     Some (0, globals_led_failed,
      [Call_sigaction_SIGTERM, Call_CreateEpollFd 3,
       Call_UART_Open MT3620_RDB_HEADER2_ISU0_UART
         (example_UART_InitConfig\<lparr>baudRate := 9600, flowControl := UART_FlowControl_None\<rparr>) 4,
       Call_RegisterEventHandlerToEpoll 3 4 uartEventData 0,
       Call_GPIO_OpenAsInput MT3620_RDB_BUTTON_A 5,
       Call_CreateTimerFdAndAddToEpoll 3 (0, 1000000) buttonPollTimerEventData 6,
       Call_GPIO_OpenAsOutput MT3620_RDB_LED2_RED GPIO_OutputMode_PushPull GPIO_Value_High (-1),
       Call_CloseFdAndPrintError (-1) ''IncomingDataLedGpio'',
       Call_CloseFdAndPrintError 6 ''ButtonPollTimer'',
       Call_CloseFdAndPrintError 5 ''TriggerSendButtonGpio'',
       Call_CloseFdAndPrintError 4 ''Uart'',
       Call_CloseFdAndPrintError 3 ''Epoll'']) \<and>
   acquisition_failed init_registration_fails \<and>
   main init_registration_fails [Sources_ready [Uart_ready (receive 5)]] 0 =
     Some (0, globals_registration_failed,
      [Call_sigaction_SIGTERM, Call_CreateEpollFd 3,
       Call_UART_Open MT3620_RDB_HEADER2_ISU0_UART
         (example_UART_InitConfig\<lparr>baudRate := 9600, flowControl := UART_FlowControl_None\<rparr>) 4,
       Call_RegisterEventHandlerToEpoll 3 4 uartEventData (-1),
       Call_CloseFdAndPrintError (-1) ''IncomingDataLedGpio'',
       Call_CloseFdAndPrintError (-1) ''ButtonPollTimer'',
       Call_CloseFdAndPrintError (-1) ''TriggerSendButtonGpio'',
       Call_CloseFdAndPrintError 4 ''Uart'',
       Call_CloseFdAndPrintError 3 ''Epoll''])"
proof -
  have f1: "acquisition_failed init_led_fails"
    by (simp add: acquisition_failed_def init_led_fails_def init_succeeds_def)
  have f2: "acquisition_failed init_registration_fails"
    by (simp add: acquisition_failed_def init_registration_fails_def init_succeeds_def)
  have i1: "InitPeripheralsAndHandlers init_led_fails initial_globals =
     (-1, globals_led_failed\<lparr>terminationRequired := False\<rparr>,
      [Call_sigaction_SIGTERM, Call_CreateEpollFd 3,
       Call_UART_Open MT3620_RDB_HEADER2_ISU0_UART
         (example_UART_InitConfig\<lparr>baudRate := 9600, flowControl := UART_FlowControl_None\<rparr>) 4,
       Call_RegisterEventHandlerToEpoll 3 4 uartEventData 0,
       Call_GPIO_OpenAsInput MT3620_RDB_BUTTON_A 5,
       Call_CreateTimerFdAndAddToEpoll 3 (0, 1000000) buttonPollTimerEventData 6,
       Call_GPIO_OpenAsOutput MT3620_RDB_LED2_RED GPIO_OutputMode_PushPull GPIO_Value_High (-1)])"
    by (simp add: InitPeripheralsAndHandlers_def Let_def init_led_fails_def init_succeeds_def
        initial_globals_def globals_led_failed_def buttonPressCheckPeriod_def)
  have i2: "InitPeripheralsAndHandlers init_registration_fails initial_globals =
     (-1, globals_registration_failed\<lparr>terminationRequired := False\<rparr>,
      [Call_sigaction_SIGTERM, Call_CreateEpollFd 3,
       Call_UART_Open MT3620_RDB_HEADER2_ISU0_UART
         (example_UART_InitConfig\<lparr>baudRate := 9600, flowControl := UART_FlowControl_None\<rparr>) 4,
       Call_RegisterEventHandlerToEpoll 3 4 uartEventData (-1)])"
    by (simp add: InitPeripheralsAndHandlers_def Let_def init_registration_fails_def
        init_succeeds_def initial_globals_def globals_registration_failed_def)
  from init_failure_releases_all [OF f1 i1, of "[Sources_ready [Uart_ready (receive 5)]]" 0]
    init_failure_releases_all [OF f2 i2, of "[Sources_ready [Uart_ready (receive 5)]]" 0]
    f1 f2 i1
  show ?thesis
    by (simp add: ClosePeripheralsAndHandlers_def globals_led_failed_def
          globals_registration_failed_def)
qed

text \<open>
  Claim C7. In every trace of the initialisation the UART is opened at 9600 baud with no
  flow control, the poll timer is created with a period of 0 s and 1000000 ns, and the
  LED is opened with the value \<open>GPIO_Value_High\<close>; an initialisation that succeeds has
  made the three calls.
\<close>

theorem init_configuration:
  "list_all configured_as_specified (snd (snd (InitPeripheralsAndHandlers inp g))) \<and>
   (fst (InitPeripheralsAndHandlers inp g) = 0 \<longrightarrow>
      Call_UART_Open MT3620_RDB_HEADER2_ISU0_UART
          ((UART_InitConfig_result inp)\<lparr>baudRate := 9600, flowControl := UART_FlowControl_None\<rparr>)
          (UART_Open_result inp)
        \<in> set (snd (snd (InitPeripheralsAndHandlers inp g))) \<and>
      Call_CreateTimerFdAndAddToEpoll (CreateEpollFd_result inp) (0, 1000000)
          buttonPollTimerEventData (CreateTimerFdAndAddToEpoll_result inp)
        \<in> set (snd (snd (InitPeripheralsAndHandlers inp g))) \<and>
      Call_GPIO_OpenAsOutput MT3620_RDB_LED2_RED GPIO_OutputMode_PushPull GPIO_Value_High
          (GPIO_OpenAsOutput_result inp)
        \<in> set (snd (snd (InitPeripheralsAndHandlers inp g))))"
  by (simp add: InitPeripheralsAndHandlers_def Let_def buttonPressCheckPeriod_def)

text \<open>The trace of an initialisation in which every acquisition succeeds.\<close>

theorem init_configuration_witness:
  "fst (InitPeripheralsAndHandlers init_succeeds initial_globals) = 0 \<and>
   snd (snd (InitPeripheralsAndHandlers init_succeeds initial_globals)) =
     [Call_sigaction_SIGTERM, Call_CreateEpollFd 3,
       Call_UART_Open MT3620_RDB_HEADER2_ISU0_UART
         (example_UART_InitConfig\<lparr>baudRate := 9600, flowControl := UART_FlowControl_None\<rparr>) 4,
       Call_RegisterEventHandlerToEpoll 3 4 uartEventData 0,
       Call_GPIO_OpenAsInput MT3620_RDB_BUTTON_A 5,
       Call_CreateTimerFdAndAddToEpoll 3 (0, 1000000) buttonPollTimerEventData 6,
       Call_GPIO_OpenAsOutput MT3620_RDB_LED2_RED GPIO_OutputMode_PushPull GPIO_Value_High 7]"
  using init_configuration [of init_succeeds initial_globals]
  by (simp add: InitPeripheralsAndHandlers_def Let_def init_succeeds_def initial_globals_def
        buttonPressCheckPeriod_def)

end
